theory Spec2Isabelle
  imports Main
begin

section \<open>Shared vocabulary of the two servers\<close>

text \<open>
  The repository holds two variants of the gateway: \<^verbatim>\<open>client_comm.py\<close> (one token
  counter per client, a multiprocessing queue towards the engines) and
  \<^verbatim>\<open>gabriel_server/websocket_server.py\<close> (one counter per filter, an abstract engine
  transport). Both run on a single asyncio event loop, so every stretch of code between
  two \<^verbatim>\<open>await\<close>s is one atomic step of the model. Frames are taken after decoding:
  the protobuf codec (\<^verbatim>\<open>gabriel_pb2\<close>) is not part of the sources.

  Python exceptions are values of \<open>py_error\<close>. An operation that can raise after it has
  already mutated the server returns the error together with the state it leaves behind.
\<close>

datatype py_error = KeyError | AttributeError | NameError | TypeError

datatype status =
  SUCCESS | NO_TOKENS | QUEUE_FULL | REQUESTED_ENGINE_NOT_AVAILABLE
  | NO_ENGINE_FOR_FILTER_PASSED | SERVER_DROPPED_FRAME | WRONG_INPUT_FORMAT

datatype level = DEBUG | INFO | WARNING | ERROR

type_synonym address = "string \<times> int"

text \<open>Client objects live in a store and are named by references, since the registry
  and the coroutines of a connection hold the same object.\<close>

type_synonym ref = nat

record websocket =
  ws_id :: nat
  remote_address :: address

text \<open>What an operation does to the outside: log records and messages put on a
  connection, in the order the code issues them.\<close>

datatype 'm effect = Log level string | Send websocket 'm

fun sends :: "'m effect list \<Rightarrow> (websocket \<times> 'm) list" where
  "sends [] = []"
| "sends (Log l t # es) = sends es"
| "sends (Send w m # es) = (w, m) # sends es"

fun logged :: "level \<Rightarrow> 'm effect list \<Rightarrow> string list" where
  "logged l [] = []"
| "logged l (Log l' t # es) = (if l' = l then t # logged l es else logged l es)"
| "logged l (Send w m # es) = logged l es"

section \<open>The single-counter server: \<^verbatim>\<open>client_comm.py\<close>\<close>

definition PORT :: int where "PORT = 9098"
definition NUM_TOKENS :: int where "NUM_TOKENS = 2"
definition INPUT_QUEUE_MAXSIZE :: int where "INPUT_QUEUE_MAXSIZE = 2"

record from_client =
  fc_frame_id :: int
  engine_name :: string
  fc_payload :: string

record content =
  frame_id :: int
  status :: status
  payload :: string

record to_client =
  tc_content :: content
  tc_num_tokens :: int

record to_from_engine =
  tfe_host :: string
  tfe_port :: int
  tfe_from_client :: from_client

text \<open>\<^verbatim>\<open>multiprocessing.Queue(maxsize)\<close>: \<^verbatim>\<open>put_nowait\<close> raises \<^verbatim>\<open>queue.Full\<close>
  (here \<open>None\<close>) when \<open>maxsize\<close> items are waiting; a \<open>maxsize\<close> of zero or less means
  no bound of the queue's own.\<close>

record mp_queue =
  items :: "to_from_engine list"
  maxsize :: int

definition put_nowait :: "mp_queue \<Rightarrow> to_from_engine \<Rightarrow> mp_queue option" where
  "put_nowait q x =
     (if 0 < maxsize q \<and> maxsize q \<le> int (length (items q)) then None
      else Some (q\<lparr>items := items q @ [x]\<rparr>))"

text \<open>A session is a \<^verbatim>\<open>SimpleNamespace\<close>. Its \<^verbatim>\<open>result_queue\<close> attribute holds an
  unbounded \<^verbatim>\<open>asyncio.Queue\<close>; \<open>None\<close> is the Python \<^verbatim>\<open>None\<close> that
  \<^verbatim>\<open>queue_result\<close> tests for.\<close>

record client =
  result_queue :: "content list option"
  tokens :: int

text \<open>The keys of the dict \<^verbatim>\<open>self.clients\<close>. The handler stores sessions under the
  connection's remote address, a tuple; the consumer looks an engine name, a string,
  up in the same dict. A Python dict takes both, and a string never equals a tuple.\<close>

datatype py_key = KAddr string int | KStr string

fun key_of :: "address \<Rightarrow> py_key" where
  "key_of (h, p) = KAddr h p"

record server =
  input_queue :: mp_queue
  available_engines :: "string set"
  num_tokens :: int
  clients :: "py_key \<rightharpoonup> ref"
  heap :: "ref \<Rightarrow> client"
  next_ref :: ref

definition WebsocketServer :: "int \<Rightarrow> int \<Rightarrow> server" where
  "WebsocketServer input_queue_maxsize n =
     \<lparr>input_queue = \<lparr>items = [], maxsize = input_queue_maxsize\<rparr>,
      available_engines = {},
      num_tokens = n,
      clients = Map.empty,
      heap = (\<lambda>_. \<lparr>result_queue = Some [], tokens = 0\<rparr>),
      next_ref = 0\<rparr>"

definition send_msg :: "websocket \<Rightarrow> content \<Rightarrow> int \<Rightarrow> to_client effect" where
  "send_msg ws c t = Send ws \<lparr>tc_content = c, tc_num_tokens = t\<rparr>"

definition send_error :: "websocket \<Rightarrow> from_client \<Rightarrow> int \<Rightarrow> status \<Rightarrow> to_client effect" where
  "send_error ws raw_input t st =
     send_msg ws \<lparr>frame_id = fc_frame_id raw_input, status = st, payload = []\<rparr> t"

definition send_queue_full_message ::
  "websocket \<Rightarrow> from_client \<Rightarrow> int \<Rightarrow> to_client effect list" where
  "send_queue_full_message ws raw_input t =
     [Log WARNING ''Queue full'', send_error ws raw_input t QUEUE_FULL]"

definition send_no_tokens_message ::
  "websocket \<Rightarrow> from_client \<Rightarrow> int \<Rightarrow> to_client effect list" where
  "send_no_tokens_message ws raw_input t =
     [Log ERROR ''Client %s sending without tokens'', send_error ws raw_input t NO_TOKENS]"

definition send_engine_not_available_message ::
  "websocket \<Rightarrow> from_client \<Rightarrow> int \<Rightarrow> to_client effect list" where
  "send_engine_not_available_message ws raw_input t =
     [Log WARNING ''Engine Not Available'',
      send_error ws raw_input t REQUESTED_ENGINE_NOT_AVAILABLE]"

definition set_tokens :: "server \<Rightarrow> ref \<Rightarrow> int \<Rightarrow> server" where
  "set_tokens s r t = s\<lparr>heap := (heap s)(r := (heap s r)\<lparr>tokens := t\<rparr>)\<rparr>"

text \<open>One iteration of \<^verbatim>\<open>async for raw_input in websocket\<close> in
  \<^verbatim>\<open>consumer_handler\<close>, on the client object \<open>r\<close>. The membership test is the
  source's: \<^verbatim>\<open>engine_name in self.clients\<close>.\<close>

definition consumer_handler_frame ::
  "server \<Rightarrow> websocket \<Rightarrow> ref \<Rightarrow> from_client \<Rightarrow> server \<times> to_client effect list" where
  "consumer_handler_frame s ws r raw_input =
     (let received = Log DEBUG ''Received input from %s'' in
      if 0 < tokens (heap s r) then
        (if clients s (KStr (engine_name raw_input)) \<noteq> None then
           (let s1 = set_tokens s r (tokens (heap s r) - 1) in
            case put_nowait (input_queue s1)
                   \<lparr>tfe_host = fst (remote_address ws), tfe_port = snd (remote_address ws),
                    tfe_from_client = raw_input\<rparr> of
              Some q \<Rightarrow> (s1\<lparr>input_queue := q\<rparr>, [received])
            | None \<Rightarrow>
                (let s2 = set_tokens s1 r (tokens (heap s1 r) + 1)
                 in (s2, received # send_queue_full_message ws raw_input (tokens (heap s2 r)))))
         else (s, received # send_engine_not_available_message ws raw_input (tokens (heap s r))))
      else (s, received # send_no_tokens_message ws raw_input (tokens (heap s r))))"

text \<open>The loop itself, over the frames that arrive back to back before the connection
  closes.\<close>

fun consumer_handler ::
  "server \<Rightarrow> websocket \<Rightarrow> ref \<Rightarrow> from_client list \<Rightarrow> server \<times> to_client effect list" where
  "consumer_handler s ws r [] = (s, [])"
| "consumer_handler s ws r (raw_input # rest) =
     (let (s1, e1) = consumer_handler_frame s ws r raw_input;
          (s2, e2) = consumer_handler s1 ws r rest
      in (s2, e1 @ e2))"

text \<open>One iteration of \<^verbatim>\<open>while True\<close> in \<^verbatim>\<open>producer_handler\<close>; on an empty
  result queue the coroutine stays suspended in \<^verbatim>\<open>get()\<close>.\<close>

definition producer_handler_step ::
  "server \<Rightarrow> websocket \<Rightarrow> ref \<Rightarrow> py_error option \<times> server \<times> to_client effect list" where
  "producer_handler_step s ws r =
     (case result_queue (heap s r) of
        None \<Rightarrow> (Some AttributeError, s, [])
      | Some [] \<Rightarrow> (None, s, [])
      | Some (c # cs) \<Rightarrow>
          (let t = tokens (heap s r) + 1;
               s1 = s\<lparr>heap := (heap s)(r := \<lparr>result_queue = Some cs, tokens = t\<rparr>)\<rparr>
           in (None, s1, [Log DEBUG ''Sending to %s'', send_msg ws c t])))"

text \<open>\<^verbatim>\<open>handler\<close>, up to the \<^verbatim>\<open>try\<close>: build the session and store it under the
  remote address, whatever is stored there.\<close>

definition handler_connect ::
  "server \<Rightarrow> websocket \<Rightarrow> ref \<times> server \<times> to_client effect list" where
  "handler_connect s ws =
     (let r = next_ref s;
          c = \<lparr>result_queue = Some [], tokens = num_tokens s\<rparr>
      in (r,
          s\<lparr>heap := (heap s)(r := c), next_ref := Suc r,
            clients := (clients s)(key_of (remote_address ws) \<mapsto> r)\<rparr>,
          [Log INFO ''New Client connected: %s'']))"

text \<open>The \<^verbatim>\<open>finally\<close> clause: \<^verbatim>\<open>del self.clients[address]\<close>, which raises
  \<^verbatim>\<open>KeyError\<close> when the key is absent, before the log line.\<close>

definition handler_finally ::
  "server \<Rightarrow> websocket \<Rightarrow> py_error option \<times> server \<times> to_client effect list" where
  "handler_finally s ws =
     (case clients s (key_of (remote_address ws)) of
        None \<Rightarrow> (Some KeyError, s, [])
      | Some _ \<Rightarrow>
          (None, s\<lparr>clients := (clients s)(key_of (remote_address ws) := None)\<rparr>,
           [Log INFO ''Client disconnected: %s'']))"

text \<open>The whole \<^verbatim>\<open>handler\<close>. \<open>duties\<close> stands for everything that happens on the event
  loop between the registration and the completion of the first of the two tasks (the
  other one is then cancelled): the frames and results of this session, and whatever
  other connections do meanwhile.\<close>

definition handler ::
  "server \<Rightarrow> websocket \<Rightarrow> (ref \<Rightarrow> server \<Rightarrow> server \<times> to_client effect list)
     \<Rightarrow> py_error option \<times> server \<times> to_client effect list" where
  "handler s ws duties =
     (let (r, s1, e1) = handler_connect s ws;
          (s2, e2) = duties r s1;
          (err, s3, e3) = handler_finally s2 ws
      in (err, s3, e1 @ e2 @ e3))"

text \<open>\<^verbatim>\<open>queue_result\<close>: \<^verbatim>\<open>self.clients.get(address)\<close> is \<^verbatim>\<open>None\<close> for an unknown
  address, and reading \<^verbatim>\<open>.result_queue\<close> of \<^verbatim>\<open>None\<close> raises \<^verbatim>\<open>AttributeError\<close>.
  The warning is logged for a session whose attribute is \<^verbatim>\<open>None\<close>; otherwise
  \<^verbatim>\<open>put\<close> appends to the queue.\<close>

definition queue_result ::
  "server \<Rightarrow> content \<Rightarrow> address \<Rightarrow> py_error option \<times> server \<times> to_client effect list" where
  "queue_result s result a =
     (case clients s (key_of a) of
        None \<Rightarrow> (Some AttributeError, s, [])
      | Some r \<Rightarrow>
          (case result_queue (heap s r) of
             None \<Rightarrow> (None, s, [Log WARNING ''Result for nonexistant address %s''])
           | Some q \<Rightarrow>
               (None,
                s\<lparr>heap := (heap s)(r := (heap s r)\<lparr>result_queue := Some (q @ [result])\<rparr>)\<rparr>,
                [])))"

text \<open>Runs of the server: any interleaving of the atomic steps above.\<close>

datatype event =
  Connect websocket
  | Frame websocket ref from_client
  | Produce websocket ref
  | Queue_result content address
  | Finally websocket

fun step :: "server \<Rightarrow> event \<Rightarrow> server" where
  "step s (Connect ws) = fst (snd (handler_connect s ws))"
| "step s (Frame ws r raw_input) = fst (consumer_handler_frame s ws r raw_input)"
| "step s (Produce ws r) = fst (snd (producer_handler_step s ws r))"
| "step s (Queue_result c a) = fst (snd (queue_result s c a))"
| "step s (Finally ws) = fst (snd (handler_finally s ws))"

definition run :: "server \<Rightarrow> event list \<Rightarrow> server" where
  "run s es = foldl step s es"

definition tokens_nonneg :: "server \<Rightarrow> bool" where
  "tokens_nonneg s = (\<forall>r < next_ref s. 0 \<le> tokens (heap s r))"

section \<open>The per-filter server: \<^verbatim>\<open>gabriel_server/websocket_server.py\<close>\<close>

record from_client_pf =
  pf_frame_id :: int
  filter_passed :: string
  pf_payload :: string

record to_engine =
  te_host :: string
  te_port :: int
  te_from_client :: from_client_pf

record result_wrapper =
  rw_frame_id :: int
  rw_status :: status
  rw_filter_passed :: string
  rw_payload :: string

record from_engine =
  fe_host :: string
  fe_port :: int
  fe_result_wrapper :: result_wrapper

text \<open>A \<^verbatim>\<open>ToClient\<close> carries a result wrapper or the welcome message. The welcome's
  list of filters is \<^verbatim>\<open>list(self._filters_consumed)\<close>, whose order Python leaves
  open, so the message is kept up to that order.\<close>

datatype to_client_pf = Result_wrapper result_wrapper | Welcome_message "string set" int

record client_pf =
  tokens_for_filter :: "string \<rightharpoonup> int"
  cl_websocket :: websocket

text \<open>The engine transport is abstract in the source (\<^verbatim>\<open>_send_to_engine\<close>,
  \<^verbatim>\<open>_recv_from_engine\<close>): its state is the type parameter, its send a parameter of
  the consumer, and what it delivers an input of the producer. The port and the
  maximum message size are only handed to \<^verbatim>\<open>websockets.serve\<close> and are left out.\<close>

record 'tr server_pf =
  num_tokens_per_filter :: int
  clients_pf :: "address \<rightharpoonup> ref"
  filters_consumed :: "string set"
  heap_pf :: "ref \<Rightarrow> client_pf"
  next_ref_pf :: ref
  transport :: 'tr

definition WebsocketServer_pf :: "int \<Rightarrow> 'tr \<Rightarrow> 'tr server_pf" where
  "WebsocketServer_pf n tr =
     \<lparr>num_tokens_per_filter = n,
      clients_pf = Map.empty,
      filters_consumed = {},
      heap_pf = (\<lambda>_. \<lparr>tokens_for_filter = Map.empty,
                        cl_websocket = \<lparr>ws_id = 0, remote_address = ([], 0)\<rparr>\<rparr>),
      next_ref_pf = 0,
      transport = tr\<rparr>"

definition send_error_pf :: "websocket \<Rightarrow> from_client_pf \<Rightarrow> status \<Rightarrow> to_client_pf effect" where
  "send_error_pf ws fc st =
     Send ws (Result_wrapper \<lparr>rw_frame_id = pf_frame_id fc, rw_status = st,
                              rw_filter_passed = [], rw_payload = []\<rparr>)"

definition set_counter :: "'tr server_pf \<Rightarrow> ref \<Rightarrow> string \<Rightarrow> int \<Rightarrow> 'tr server_pf" where
  "set_counter s r f t =
     s\<lparr>heap_pf := (heap_pf s)
        (r := (heap_pf s r)\<lparr>tokens_for_filter := (tokens_for_filter (heap_pf s r))(f \<mapsto> t)\<rparr>)\<rparr>"

text \<open>One iteration of \<^verbatim>\<open>while websocket.open\<close> in \<^verbatim>\<open>_consumer\<close>. Reading
  \<^verbatim>\<open>client.tokens_for_filter[filter_passed]\<close> raises \<^verbatim>\<open>KeyError\<close> when the ledger
  has no such counter. The send to the engines is awaited; the only other writer of
  this ledger that can run meanwhile is the producer, which adds.\<close>

definition consumer_pf_frame ::
  "('tr \<Rightarrow> to_engine \<Rightarrow> bool \<times> 'tr) \<Rightarrow> 'tr server_pf \<Rightarrow> websocket \<Rightarrow> ref \<Rightarrow> from_client_pf
     \<Rightarrow> py_error option \<times> 'tr server_pf \<times> to_client_pf effect list" where
  "consumer_pf_frame send_to_engine s ws r raw_input =
     (let received = Log DEBUG ''Received input from %s'';
          to_eng = \<lparr>te_host = fst (remote_address ws), te_port = snd (remote_address ws),
                    te_from_client = raw_input\<rparr>;
          fp = filter_passed raw_input
      in
      if fp \<notin> filters_consumed s then
        (None, s, [received, Log ERROR ''No engines consume frames from %s'',
                   send_error_pf ws raw_input NO_ENGINE_FOR_FILTER_PASSED])
      else
        (case tokens_for_filter (heap_pf s r) fp of
           None \<Rightarrow> (Some KeyError, s, [received])
         | Some t \<Rightarrow>
             if t < 1 then
               (None, s, [received,
                          Log ERROR ''Client %s sending output of filter %s without tokens'',
                          send_error_pf ws raw_input NO_TOKENS])
             else
               (let (send_succeeded, tr) = send_to_engine (transport s) to_eng;
                    s1 = s\<lparr>transport := tr\<rparr>
                in
                if \<not> send_succeeded then
                  (None, s1, [received, Log ERROR ''Send to engine(s) that consume %s failed'',
                              send_error_pf ws raw_input SERVER_DROPPED_FRAME])
                else (None, set_counter s1 r fp (t - 1), [received]))))"

text \<open>The same iteration in its two atomic halves, for runs in which other coroutines
  are scheduled while the send is awaited: the checks up to the \<^verbatim>\<open>await\<close> (\<open>None\<close>
  when the coroutine goes on to send, otherwise how the iteration ends), and the code
  from the \<^verbatim>\<open>await\<close> on, which reads the counter again for the decrement.\<close>

definition consumer_pf_check ::
  "'tr server_pf \<Rightarrow> websocket \<Rightarrow> ref \<Rightarrow> from_client_pf
     \<Rightarrow> (py_error option \<times> to_client_pf effect list) option" where
  "consumer_pf_check s ws r raw_input =
     (let received = Log DEBUG ''Received input from %s'';
          fp = filter_passed raw_input
      in
      if fp \<notin> filters_consumed s then
        Some (None, [received, Log ERROR ''No engines consume frames from %s'',
                     send_error_pf ws raw_input NO_ENGINE_FOR_FILTER_PASSED])
      else
        (case tokens_for_filter (heap_pf s r) fp of
           None \<Rightarrow> Some (Some KeyError, [received])
         | Some t \<Rightarrow>
             if t < 1 then
               Some (None, [received,
                            Log ERROR ''Client %s sending output of filter %s without tokens'',
                            send_error_pf ws raw_input NO_TOKENS])
             else None))"

definition consumer_pf_resume ::
  "('tr \<Rightarrow> to_engine \<Rightarrow> bool \<times> 'tr) \<Rightarrow> 'tr server_pf \<Rightarrow> websocket \<Rightarrow> ref \<Rightarrow> from_client_pf
     \<Rightarrow> py_error option \<times> 'tr server_pf \<times> to_client_pf effect list" where
  "consumer_pf_resume send_to_engine s ws r raw_input =
     (let to_eng = \<lparr>te_host = fst (remote_address ws), te_port = snd (remote_address ws),
                    te_from_client = raw_input\<rparr>;
          fp = filter_passed raw_input;
          (send_succeeded, tr) = send_to_engine (transport s) to_eng;
          s1 = s\<lparr>transport := tr\<rparr>
      in
      if \<not> send_succeeded then
        (None, s1, [Log ERROR ''Send to engine(s) that consume %s failed'',
                    send_error_pf ws raw_input SERVER_DROPPED_FRAME])
      else
        (case tokens_for_filter (heap_pf s1 r) fp of
           None \<Rightarrow> (Some KeyError, s1, [])
         | Some t \<Rightarrow> (None, set_counter s1 r fp (t - 1), [])))"

text \<open>The loop: the frames received until the connection closes; an exception other
  than \<^verbatim>\<open>ConnectionClosed\<close> leaves the loop and the coroutine.\<close>

fun consumer_pf ::
  "('tr \<Rightarrow> to_engine \<Rightarrow> bool \<times> 'tr) \<Rightarrow> 'tr server_pf \<Rightarrow> websocket \<Rightarrow> ref \<Rightarrow> from_client_pf list
     \<Rightarrow> py_error option \<times> 'tr server_pf \<times> to_client_pf effect list" where
  "consumer_pf send_to_engine s ws r [] = (None, s, [])"
| "consumer_pf send_to_engine s ws r (raw_input # rest) =
     (case consumer_pf_frame send_to_engine s ws r raw_input of
        (Some e, s1, e1) \<Rightarrow> (Some e, s1, e1)
      | (None, s1, e1) \<Rightarrow>
          (let (err, s2, e2) = consumer_pf send_to_engine s1 ws r rest
           in (err, s2, e1 @ e2)))"

text \<open>One iteration of \<^verbatim>\<open>while server.is_serving()\<close> in \<^verbatim>\<open>_producer\<close>, for the
  message \<^verbatim>\<open>_recv_from_engine\<close> returned. \<^verbatim>\<open>tokens_for_filter[...] += 1\<close> reads the
  counter first and raises \<^verbatim>\<open>KeyError\<close> when it is missing.\<close>

definition producer_pf_step ::
  "'tr server_pf \<Rightarrow> from_engine \<Rightarrow> py_error option \<times> 'tr server_pf \<times> to_client_pf effect list" where
  "producer_pf_step s fe =
     (case clients_pf s (fe_host fe, fe_port fe) of
        None \<Rightarrow> (None, s, [Log WARNING ''Result for nonexistant address %s''])
      | Some r \<Rightarrow>
          (let rw = fe_result_wrapper fe in
           case tokens_for_filter (heap_pf s r) (rw_filter_passed rw) of
             None \<Rightarrow> (Some KeyError, s, [])
           | Some t \<Rightarrow>
               (None, set_counter s r (rw_filter_passed rw) (t + 1),
                [Log DEBUG ''Sending to %s'',
                 Send (cl_websocket (heap_pf s r)) (Result_wrapper rw)])))"

fun producer_pf ::
  "'tr server_pf \<Rightarrow> from_engine list
     \<Rightarrow> py_error option \<times> 'tr server_pf \<times> to_client_pf effect list" where
  "producer_pf s [] = (None, s, [])"
| "producer_pf s (fe # rest) =
     (case producer_pf_step s fe of
        (Some e, s1, e1) \<Rightarrow> (Some e, s1, e1)
      | (None, s1, e1) \<Rightarrow>
          (let (err, s2, e2) = producer_pf s1 rest in (err, s2, e1 @ e2)))"

text \<open>The session object of \<^verbatim>\<open>_handler\<close> is built by
  \<^verbatim>\<open>namedtuple(tokens_for_filter=..., websocket=websocket)\<close>, with
  \<^verbatim>\<open>namedtuple\<close> imported from \<^verbatim>\<open>collections\<close>. That function is
  \<^verbatim>\<open>namedtuple(typename, field_names, *, rename, defaults, module)\<close>: the call gives
  neither required argument and two keywords it does not know, so it raises
  \<^verbatim>\<open>TypeError\<close> whatever the arguments are.\<close>

definition namedtuple :: "(string \<rightharpoonup> int) \<Rightarrow> websocket \<Rightarrow> py_error + client_pf" where
  "namedtuple tokens_for_filter_kw websocket_kw = Inl TypeError"

text \<open>\<^verbatim>\<open>_handler\<close> up to the \<^verbatim>\<open>try\<close>: the session, its registration and the
  welcome message.\<close>

definition handler_pf_connect ::
  "'tr server_pf \<Rightarrow> websocket \<Rightarrow> py_error option \<times> 'tr server_pf \<times> to_client_pf effect list" where
  "handler_pf_connect s ws =
     (let connected = Log INFO ''New Client connected: %s'' in
      case namedtuple
             (\<lambda>filter_name. if filter_name \<in> filters_consumed s
                             then Some (num_tokens_per_filter s) else None) ws of
        Inl e \<Rightarrow> (Some e, s, [connected])
      | Inr client \<Rightarrow>
          (let r = next_ref_pf s;
               s1 = s\<lparr>heap_pf := (heap_pf s)(r := client), next_ref_pf := Suc r,
                      clients_pf := (clients_pf s)(remote_address ws \<mapsto> r)\<rparr>
           in (None, s1,
               [connected,
                Send ws (Welcome_message (filters_consumed s1) (num_tokens_per_filter s1))])))"

definition handler_pf_finally ::
  "'tr server_pf \<Rightarrow> websocket \<Rightarrow> py_error option \<times> 'tr server_pf \<times> to_client_pf effect list" where
  "handler_pf_finally s ws =
     (case clients_pf s (remote_address ws) of
        None \<Rightarrow> (Some KeyError, s, [])
      | Some _ \<Rightarrow>
          (None, s\<lparr>clients_pf := (clients_pf s)(remote_address ws := None)\<rparr>,
           [Log INFO ''Client disconnected: %s'']))"

text \<open>The whole \<^verbatim>\<open>_handler\<close>; \<open>consumer\<close> is the awaited \<^verbatim>\<open>_consumer\<close> together with
  what the event loop runs meanwhile. An exception before the \<^verbatim>\<open>try\<close> skips the
  \<^verbatim>\<open>finally\<close> clause; one raised inside it is replaced by the clause's own, if any.\<close>

definition handler_pf ::
  "'tr server_pf \<Rightarrow> websocket
     \<Rightarrow> (ref \<Rightarrow> 'tr server_pf \<Rightarrow> py_error option \<times> 'tr server_pf \<times> to_client_pf effect list)
     \<Rightarrow> py_error option \<times> 'tr server_pf \<times> to_client_pf effect list" where
  "handler_pf s ws consumer =
     (case handler_pf_connect s ws of
        (Some e, s1, e1) \<Rightarrow> (Some e, s1, e1)
      | (None, s1, e1) \<Rightarrow>
          (let (err, s2, e2) = consumer (next_ref_pf s) s1;
               (err', s3, e3) = handler_pf_finally s2 ws
           in (case err' of Some k \<Rightarrow> Some k | None \<Rightarrow> err, s3, e1 @ e2 @ e3)))"

text \<open>Both registration functions end in \<^verbatim>\<open>for client in clients:\<close>. The module
  has no global of that name and the functions no such local (the registry is
  \<^verbatim>\<open>self._clients\<close>), so evaluating the name raises \<^verbatim>\<open>NameError\<close> before the
  first iteration, after the set has been changed.\<close>

definition global_clients :: "py_error + ref list" where
  "global_clients = Inl NameError"

definition add_filter_consumed :: "'tr server_pf \<Rightarrow> string \<Rightarrow> py_error option \<times> 'tr server_pf" where
  "add_filter_consumed s filter_name =
     (if filter_name \<in> filters_consumed s then (None, s)
      else
        (let s1 = s\<lparr>filters_consumed := insert filter_name (filters_consumed s)\<rparr> in
         case global_clients of
           Inl e \<Rightarrow> (Some e, s1)
         | Inr cs \<Rightarrow>
             (None, foldl (\<lambda>s' r. set_counter s' r filter_name (num_tokens_per_filter s')) s1 cs)))"

definition del_counter :: "'tr server_pf \<Rightarrow> ref \<Rightarrow> string \<Rightarrow> 'tr server_pf" where
  "del_counter s r f =
     s\<lparr>heap_pf := (heap_pf s)
        (r := (heap_pf s r)\<lparr>tokens_for_filter := (tokens_for_filter (heap_pf s r))(f := None)\<rparr>)\<rparr>"

fun del_counters ::
  "'tr server_pf \<Rightarrow> string \<Rightarrow> ref list \<Rightarrow> py_error option \<times> 'tr server_pf" where
  "del_counters s f [] = (None, s)"
| "del_counters s f (r # rs) =
     (case tokens_for_filter (heap_pf s r) f of
        None \<Rightarrow> (Some KeyError, s)
      | Some _ \<Rightarrow> del_counters (del_counter s r f) f rs)"

definition remove_filter_consumed ::
  "'tr server_pf \<Rightarrow> string \<Rightarrow> py_error option \<times> 'tr server_pf" where
  "remove_filter_consumed s filter_name =
     (if filter_name \<notin> filters_consumed s then (None, s)
      else
        (let s1 = s\<lparr>filters_consumed := filters_consumed s - {filter_name}\<rparr> in
         case global_clients of
           Inl e \<Rightarrow> (Some e, s1)
         | Inr cs \<Rightarrow> del_counters s1 filter_name cs))"

text \<open>Runs of the per-filter server. Besides the server they record which consumer
  coroutines are suspended in the awaited send, and with which frame: a consumer takes
  its next frame only after the iteration before has ended.\<close>

record 'tr loop_pf =
  srv :: "'tr server_pf"
  awaiting :: "ref \<rightharpoonup> websocket \<times> from_client_pf"

datatype event_pf =
  Connect_pf websocket
  | Recv_pf websocket ref from_client_pf
  | Resume_pf ref
  | Result_pf from_engine
  | Add_filter string
  | Remove_filter string
  | Finally_pf websocket

fun step_pf ::
  "('tr \<Rightarrow> to_engine \<Rightarrow> bool \<times> 'tr) \<Rightarrow> 'tr loop_pf \<Rightarrow> event_pf \<Rightarrow> 'tr loop_pf" where
  "step_pf snd_eng l (Connect_pf ws) = l\<lparr>srv := fst (snd (handler_pf_connect (srv l) ws))\<rparr>"
| "step_pf snd_eng l (Recv_pf ws r raw_input) =
     (if awaiting l r \<noteq> None then l
      else case consumer_pf_check (srv l) ws r raw_input of
             Some _ \<Rightarrow> l
           | None \<Rightarrow> l\<lparr>awaiting := (awaiting l)(r \<mapsto> (ws, raw_input))\<rparr>)"
| "step_pf snd_eng l (Resume_pf r) =
     (case awaiting l r of
        None \<Rightarrow> l
      | Some (ws, raw_input) \<Rightarrow>
          l\<lparr>srv := fst (snd (consumer_pf_resume snd_eng (srv l) ws r raw_input)),
            awaiting := (awaiting l)(r := None)\<rparr>)"
| "step_pf snd_eng l (Result_pf fe) = l\<lparr>srv := fst (snd (producer_pf_step (srv l) fe))\<rparr>"
| "step_pf snd_eng l (Add_filter f) = l\<lparr>srv := snd (add_filter_consumed (srv l) f)\<rparr>"
| "step_pf snd_eng l (Remove_filter f) = l\<lparr>srv := snd (remove_filter_consumed (srv l) f)\<rparr>"
| "step_pf snd_eng l (Finally_pf ws) = l\<lparr>srv := fst (snd (handler_pf_finally (srv l) ws))\<rparr>"

definition run_pf ::
  "('tr \<Rightarrow> to_engine \<Rightarrow> bool \<times> 'tr) \<Rightarrow> 'tr server_pf \<Rightarrow> event_pf list \<Rightarrow> 'tr server_pf" where
  "run_pf snd_eng s es = srv (foldl (step_pf snd_eng) \<lparr>srv = s, awaiting = Map.empty\<rparr> es)"

definition tokens_nonneg_pf :: "'tr server_pf \<Rightarrow> bool" where
  "tokens_nonneg_pf s =
     (\<forall>r < next_ref_pf s. \<forall>f t. tokens_for_filter (heap_pf s r) f = Some t \<longrightarrow> 0 \<le> t)"

text \<open>What holds between the steps of a run: no counter is negative, and a consumer
  suspended in its send has seen a counter of at least one.\<close>

definition tokens_safe_pf :: "'tr loop_pf \<Rightarrow> bool" where
  "tokens_safe_pf l =
     (tokens_nonneg_pf (srv l)
      \<and> (\<forall>r ws raw_input t.
            awaiting l r = Some (ws, raw_input) \<longrightarrow>
            tokens_for_filter (heap_pf (srv l) r) (filter_passed raw_input) = Some t \<longrightarrow>
            1 \<le> t))"

section \<open>Concrete scenarios\<close>

text \<open>Two connections from the same remote endpoint, and frames for the engine and the
  filter \<open>faces\<close>.\<close>

definition ws_a :: websocket where
  "ws_a = \<lparr>ws_id = 1, remote_address = (''10.0.0.1'', 5000)\<rparr>"

definition ws_a2 :: websocket where
  "ws_a2 = \<lparr>ws_id = 2, remote_address = (''10.0.0.1'', 5000)\<rparr>"

definition frame_faces :: "int \<Rightarrow> from_client" where
  "frame_faces i = \<lparr>fc_frame_id = i, engine_name = ''faces'', fc_payload = ''jpeg''\<rparr>"

definition frame_faces_pf :: "int \<Rightarrow> from_client_pf" where
  "frame_faces_pf i = \<lparr>pf_frame_id = i, filter_passed = ''faces'', pf_payload = ''jpeg''\<rparr>"

definition result_faces :: "int \<Rightarrow> from_engine" where
  "result_faces i =
     \<lparr>fe_host = ''10.0.0.1'', fe_port = 5000,
      fe_result_wrapper = \<lparr>rw_frame_id = i, rw_status = SUCCESS,
                           rw_filter_passed = ''faces'', rw_payload = ''box''\<rparr>\<rparr>"

text \<open>The default server of \<^verbatim>\<open>client_comm.py\<close> with an engine \<open>faces\<close> announced in
  \<^verbatim>\<open>available_engines\<close>, and the same after one client has connected.\<close>

definition default_server :: server where
  "default_server =
     (WebsocketServer INPUT_QUEUE_MAXSIZE NUM_TOKENS)\<lparr>available_engines := {''faces''}\<rparr>"

definition connected_server :: server where
  "connected_server = fst (snd (handler_connect default_server ws_a))"

text \<open>A server state in which the dict \<^verbatim>\<open>clients\<close> also has the string key \<open>faces\<close>
  and the input queue holds its two items: the only kind of state in which the consumer
  of \<^verbatim>\<open>client_comm.py\<close> reaches \<^verbatim>\<open>put_nowait\<close>.\<close>

definition keyed_full_server :: server where
  "keyed_full_server =
     connected_server
       \<lparr>clients := (clients connected_server)(KStr ''faces'' \<mapsto> 0),
        input_queue := \<lparr>items = [\<lparr>tfe_host = ''10.0.0.1'', tfe_port = 5000,
                                   tfe_from_client = frame_faces 1\<rparr>,
                                  \<lparr>tfe_host = ''10.0.0.1'', tfe_port = 5000,
                                   tfe_from_client = frame_faces 2\<rparr>],
                         maxsize = 2\<rparr>\<rparr>"

text \<open>An engine transport that takes two envelopes and refuses the rest.\<close>

definition list_transport :: "to_engine list \<Rightarrow> to_engine \<Rightarrow> bool \<times> to_engine list" where
  "list_transport tr e = (if length tr < 2 then (True, tr @ [e]) else (False, tr))"

text \<open>A per-filter server with the filter \<open>faces\<close> registered and one session stored
  under the address of \<open>ws_a\<close>, whose ledger is given: the registry as \<^verbatim>\<open>_handler\<close>
  is written to fill it, on which \<^verbatim>\<open>_consumer\<close> and \<^verbatim>\<open>_producer\<close> work.\<close>

definition pf_session :: "(string \<rightharpoonup> int) \<Rightarrow> to_engine list \<Rightarrow> to_engine list server_pf" where
  "pf_session ledger tr =
     \<lparr>num_tokens_per_filter = 2,
      clients_pf = [(''10.0.0.1'', 5000) \<mapsto> 0],
      filters_consumed = {''faces''},
      heap_pf = (\<lambda>_. \<lparr>tokens_for_filter = ledger, cl_websocket = ws_a\<rparr>),
      next_ref_pf = 1,
      transport = tr\<rparr>"

text \<open>A server configured with no tokens at all, after one client has connected.\<close>

definition zero_server :: server where
  "zero_server = fst (snd (handler_connect (WebsocketServer INPUT_QUEUE_MAXSIZE 0) ws_a))"

text \<open>The state of \<open>list_transport\<close> once it is full.\<close>

definition full_tr :: "to_engine list" where
  "full_tr = [\<lparr>te_host = ''10.0.0.1'', te_port = 5000, te_from_client = frame_faces_pf 1\<rparr>,
              \<lparr>te_host = ''10.0.0.1'', te_port = 5000, te_from_client = frame_faces_pf 2\<rparr>]"

text \<open>The connected default server after a result for its client has been queued, and
  after a second connection from the same remote endpoint has then been accepted.\<close>

definition queued_server :: server where
  "queued_server =
     fst (snd (queue_result connected_server
                 \<lparr>frame_id = 1, status = SUCCESS, payload = ''box''\<rparr> (''10.0.0.1'', 5000)))"

definition reconnected_server :: server where
  "reconnected_server = fst (snd (handler_connect queued_server ws_a2))"

text \<open>A per-filter server with one session and nothing registered yet.\<close>

definition pf_unregistered :: "to_engine list server_pf" where
  "pf_unregistered = (pf_session Map.empty [])\<lparr>filters_consumed := {}\<rparr>"

text \<open>The dict \<^verbatim>\<open>clients\<close> of \<^verbatim>\<open>client_comm.py\<close> has no string key.\<close>

definition keys_are_addresses :: "server \<Rightarrow> bool" where
  "keys_are_addresses s = (\<forall>name. clients s (KStr name) = None)"

text \<open>A frame for an engine \<open>cars\<close>, which no scenario announces, and the server
  made with a given set of announced engines.\<close>

definition frame_cars :: "int \<Rightarrow> from_client" where
  "frame_cars i = \<lparr>fc_frame_id = i, engine_name = ''cars'', fc_payload = ''jpeg''\<rparr>"

definition announcing :: "int \<Rightarrow> int \<Rightarrow> string set \<Rightarrow> server" where
  "announcing m n engines = (WebsocketServer m n)\<lparr>available_engines := engines\<rparr>"

text \<open>A session during which nothing happens before one of its tasks completes.\<close>

definition no_duties :: "ref \<Rightarrow> server \<Rightarrow> server \<times> to_client effect list" where
  "no_duties r s = (s, [])"

section \<open>What one step does\<close>

lemma num_tokens_step: "num_tokens (step s e) = num_tokens s"
  by (cases e)
     (auto simp: handler_connect_def consumer_handler_frame_def producer_handler_step_def
        queue_result_def handler_finally_def set_tokens_def Let_def
        split: option.splits list.splits)

lemma tokens_nonneg_step:
  "0 \<le> num_tokens s \<Longrightarrow> tokens_nonneg s \<Longrightarrow> tokens_nonneg (step s e)"
  by (cases e)
     (auto simp: tokens_nonneg_def handler_connect_def consumer_handler_frame_def
        producer_handler_step_def queue_result_def handler_finally_def set_tokens_def Let_def
        less_Suc_eq
        split: option.splits list.splits)

lemma tokens_nonneg_run:
  "0 \<le> num_tokens s \<Longrightarrow> tokens_nonneg s \<Longrightarrow> tokens_nonneg (run s es)"
  unfolding run_def
  by (induction es arbitrary: s) (simp_all add: num_tokens_step tokens_nonneg_step)

lemma tokens_nonneg_init: "tokens_nonneg (WebsocketServer m n)"
  by (simp add: tokens_nonneg_def WebsocketServer_def)

lemma no_tokens_frame:
  "tokens (heap s r) \<le> 0 \<Longrightarrow>
   consumer_handler_frame s ws r raw_input =
     (s, [Log DEBUG ''Received input from %s'', Log ERROR ''Client %s sending without tokens'',
          send_error ws raw_input (tokens (heap s r)) NO_TOKENS])"
  by (simp add: consumer_handler_frame_def send_no_tokens_message_def)

lemma not_available_frame:
  "0 < tokens (heap s r) \<Longrightarrow> clients s (KStr (engine_name raw_input)) = None \<Longrightarrow>
   consumer_handler_frame s ws r raw_input =
     (s, [Log DEBUG ''Received input from %s'', Log WARNING ''Engine Not Available'',
          send_error ws raw_input (tokens (heap s r)) REQUESTED_ENGINE_NOT_AVAILABLE])"
  by (simp add: consumer_handler_frame_def send_engine_not_available_message_def)

lemma queue_full_frame:
  "0 < tokens (heap s r) \<Longrightarrow> clients s (KStr (engine_name raw_input)) \<noteq> None \<Longrightarrow>
   put_nowait (input_queue s)
     \<lparr>tfe_host = fst (remote_address ws), tfe_port = snd (remote_address ws),
      tfe_from_client = raw_input\<rparr> = None \<Longrightarrow>
   consumer_handler_frame s ws r raw_input =
     (s, [Log DEBUG ''Received input from %s'', Log WARNING ''Queue full'',
          send_error ws raw_input (tokens (heap s r)) QUEUE_FULL])"
  by (simp add: consumer_handler_frame_def send_queue_full_message_def set_tokens_def)

lemma consumer_pf_frame_halves:
  "consumer_pf_frame snd_eng s ws r raw_input =
     (case consumer_pf_check s ws r raw_input of
        Some (err, e) \<Rightarrow> (err, s, e)
      | None \<Rightarrow>
          (let (err, s1, e) = consumer_pf_resume snd_eng s ws r raw_input
           in (err, s1, Log DEBUG ''Received input from %s'' # e)))"
  by (auto simp: consumer_pf_frame_def consumer_pf_check_def consumer_pf_resume_def Let_def
      split: option.splits prod.splits)

lemma tokens_safe_pfD:
  "tokens_safe_pf l \<Longrightarrow> awaiting l r = Some (ws, raw_input) \<Longrightarrow>
   tokens_for_filter (heap_pf (srv l) r) (filter_passed raw_input) = Some t \<Longrightarrow> 1 \<le> t"
  unfolding tokens_safe_pf_def by blast

lemma tokens_nonneg_pfD:
  "tokens_nonneg_pf s \<Longrightarrow> r < next_ref_pf s \<Longrightarrow> tokens_for_filter (heap_pf s r) f = Some t
   \<Longrightarrow> 0 \<le> t"
  unfolding tokens_nonneg_pf_def by blast

lemma set_counter_other [simp]:
  "r' \<noteq> r \<Longrightarrow> heap_pf (set_counter s r f t) r' = heap_pf s r'"
  "f' \<noteq> f \<Longrightarrow> tokens_for_filter (heap_pf (set_counter s r f t) r') f'
     = tokens_for_filter (heap_pf s r') f'"
  "tokens_for_filter (heap_pf (set_counter s r f t) r) f = Some t"
  "next_ref_pf (set_counter s r f t) = next_ref_pf s"
  by (simp_all add: set_counter_def)

lemma tokens_nonneg_set_counter:
  assumes nn: "tokens_nonneg_pf s" and t': "r < next_ref_pf s \<Longrightarrow> 0 \<le> t'"
  shows "tokens_nonneg_pf (set_counter s r f t')"
  unfolding tokens_nonneg_pf_def
proof (intro allI impI)
  fix r' f' t''
  assume r': "r' < next_ref_pf (set_counter s r f t')"
    and l: "tokens_for_filter (heap_pf (set_counter s r f t') r') f' = Some t''"
  from r' have r'': "r' < next_ref_pf s" by (simp add: set_counter_def)
  show "0 \<le> t''"
  proof (cases "r' = r \<and> f' = f")
    case True
    with l t' r'' show ?thesis by (simp add: set_counter_def)
  next
    case False
    then have "tokens_for_filter (heap_pf (set_counter s r f t') r') f'
        = tokens_for_filter (heap_pf s r') f'"
      by (auto simp: set_counter_def)
    with l have "tokens_for_filter (heap_pf s r') f' = Some t''" by simp
    from tokens_nonneg_pfD [OF nn r'' this] show ?thesis .
  qed
qed

lemma tokens_safe_pf_step:
  assumes safe: "tokens_safe_pf l"
  shows "tokens_safe_pf (step_pf snd_eng l e)"
proof (cases e)
  case (Recv_pf ws r raw_input)
  with safe show ?thesis
    by (auto simp: tokens_safe_pf_def tokens_nonneg_pf_def consumer_pf_check_def Let_def
        split: option.splits if_splits)
next
  case (Resume_pf r)
  show ?thesis
  proof (cases "awaiting l r")
    case None
    with safe Resume_pf show ?thesis by simp
  next
    case (Some wr)
    obtain ws raw_input where wr: "wr = (ws, raw_input)" by (cases wr)
    let ?f = "filter_passed raw_input"
    let ?s' = "fst (snd (consumer_pf_resume snd_eng (srv l) ws r raw_input))"
    have nonneg: "tokens_nonneg_pf (srv l)"
      using safe by (simp add: tokens_safe_pf_def)
    have s': "(\<exists>tr. ?s' = (srv l)\<lparr>transport := tr\<rparr>)
        \<or> (\<exists>tr t. tokens_for_filter (heap_pf (srv l) r) ?f = Some t
              \<and> ?s' = set_counter ((srv l)\<lparr>transport := tr\<rparr>) r ?f (t - 1))"
      by (auto simp: consumer_pf_resume_def Let_def split: option.splits prod.splits)
    then show ?thesis
    proof
      assume "\<exists>tr. ?s' = (srv l)\<lparr>transport := tr\<rparr>"
      then obtain tr where "?s' = (srv l)\<lparr>transport := tr\<rparr>" ..
      with safe Resume_pf Some wr show ?thesis
        by (auto simp: tokens_safe_pf_def tokens_nonneg_pf_def)
    next
      assume "\<exists>tr t. tokens_for_filter (heap_pf (srv l) r) ?f = Some t
              \<and> ?s' = set_counter ((srv l)\<lparr>transport := tr\<rparr>) r ?f (t - 1)"
      then obtain tr t where t: "tokens_for_filter (heap_pf (srv l) r) ?f = Some t"
        and eq: "?s' = set_counter ((srv l)\<lparr>transport := tr\<rparr>) r ?f (t - 1)" by blast
      from tokens_safe_pfD [OF safe] Some wr t have "1 \<le> t" by blast
      then have t1: "0 \<le> t - 1" by simp
      have "tokens_nonneg_pf ((srv l)\<lparr>transport := tr\<rparr>)"
        using nonneg by (simp add: tokens_nonneg_pf_def)
      from tokens_nonneg_set_counter [OF this] t1
      have nn': "tokens_nonneg_pf ?s'" by (simp add: eq)
      have aw': "\<And>r' ws' raw' t'. r' \<noteq> r \<Longrightarrow> awaiting l r' = Some (ws', raw') \<Longrightarrow>
          tokens_for_filter (heap_pf ?s' r') (filter_passed raw') = Some t' \<Longrightarrow> 1 \<le> t'"
        using tokens_safe_pfD [OF safe] by (simp add: eq)
      show ?thesis
        using Resume_pf Some wr nn' aw'
        by (auto simp: tokens_safe_pf_def)
    qed
  qed
next
  case (Result_pf fe)
  let ?s' = "fst (snd (producer_pf_step (srv l) fe))"
  have nonneg: "tokens_nonneg_pf (srv l)"
    using safe by (simp add: tokens_safe_pf_def)
  have s': "?s' = srv l
      \<or> (\<exists>r t. tokens_for_filter (heap_pf (srv l) r) (rw_filter_passed (fe_result_wrapper fe)) = Some t
            \<and> ?s' = set_counter (srv l) r (rw_filter_passed (fe_result_wrapper fe)) (t + 1))"
    by (auto simp: producer_pf_step_def Let_def split: option.splits)
  then show ?thesis
  proof
    assume "?s' = srv l"
    with safe Result_pf show ?thesis by simp
  next
    let ?f = "rw_filter_passed (fe_result_wrapper fe)"
    assume "\<exists>r t. tokens_for_filter (heap_pf (srv l) r) ?f = Some t
            \<and> ?s' = set_counter (srv l) r ?f (t + 1)"
    then obtain r t where t: "tokens_for_filter (heap_pf (srv l) r) ?f = Some t"
      and eq: "?s' = set_counter (srv l) r ?f (t + 1)" by blast
    have "r < next_ref_pf (srv l) \<Longrightarrow> 0 \<le> t + 1"
      using tokens_nonneg_pfD [OF nonneg _ t] by fastforce
    from tokens_nonneg_set_counter [OF nonneg this]
    have nn': "tokens_nonneg_pf ?s'" by (simp add: eq)
    have aw': "1 \<le> t'" if a: "awaiting l r' = Some (ws', raw')"
      and l': "tokens_for_filter (heap_pf ?s' r') (filter_passed raw') = Some t'"
      for r' ws' raw' t'
    proof (cases "r' = r \<and> filter_passed raw' = ?f")
      case True
      with a t tokens_safe_pfD [OF safe] have "1 \<le> t" by metis
      with True l' show ?thesis by (simp add: eq)
    next
      case False
      then have "tokens_for_filter (heap_pf ?s' r') (filter_passed raw')
          = tokens_for_filter (heap_pf (srv l) r') (filter_passed raw')"
        by (auto simp: eq set_counter_def)
      with l' a tokens_safe_pfD [OF safe] show ?thesis by metis
    qed
    show ?thesis
      using Result_pf nn' aw' by (auto simp: tokens_safe_pf_def)
  qed
qed (use safe in \<open>auto simp: tokens_safe_pf_def tokens_nonneg_pf_def handler_pf_connect_def namedtuple_def
       add_filter_consumed_def remove_filter_consumed_def global_clients_def
       handler_pf_finally_def Let_def
     split: option.splits\<close>)

lemma tokens_safe_pf_foldl:
  "tokens_safe_pf l \<Longrightarrow> tokens_safe_pf (foldl (step_pf snd_eng) l es)"
  by (induction es arbitrary: l) (simp_all add: tokens_safe_pf_step)

lemma tokens_nonneg_pf_run:
  "tokens_nonneg_pf s \<Longrightarrow> tokens_nonneg_pf (run_pf snd_eng s es)"
proof -
  assume "tokens_nonneg_pf s"
  then have "tokens_safe_pf \<lparr>srv = s, awaiting = Map.empty\<rparr>"
    by (simp add: tokens_safe_pf_def)
  then have "tokens_safe_pf (foldl (step_pf snd_eng) \<lparr>srv = s, awaiting = Map.empty\<rparr> es)"
    by (rule tokens_safe_pf_foldl)
  then show ?thesis by (simp add: run_pf_def tokens_safe_pf_def)
qed

lemma no_engine_pf:
  "filter_passed raw_input \<notin> filters_consumed s \<Longrightarrow>
   consumer_pf_frame snd_eng s ws r raw_input =
     (None, s, [Log DEBUG ''Received input from %s'',
                Log ERROR ''No engines consume frames from %s'',
                send_error_pf ws raw_input NO_ENGINE_FOR_FILTER_PASSED])"
  by (simp add: consumer_pf_frame_def)

lemma no_tokens_pf:
  "filter_passed raw_input \<in> filters_consumed s \<Longrightarrow>
   tokens_for_filter (heap_pf s r) (filter_passed raw_input) = Some t \<Longrightarrow> t < 1 \<Longrightarrow>
   consumer_pf_frame snd_eng s ws r raw_input =
     (None, s, [Log DEBUG ''Received input from %s'',
                Log ERROR ''Client %s sending output of filter %s without tokens'',
                send_error_pf ws raw_input NO_TOKENS])"
  by (simp add: consumer_pf_frame_def)

lemma dropped_pf:
  "filter_passed raw_input \<in> filters_consumed s \<Longrightarrow>
   tokens_for_filter (heap_pf s r) (filter_passed raw_input) = Some t \<Longrightarrow> 1 \<le> t \<Longrightarrow>
   snd_eng (transport s)
     \<lparr>te_host = fst (remote_address ws), te_port = snd (remote_address ws),
      te_from_client = raw_input\<rparr> = (False, tr) \<Longrightarrow>
   consumer_pf_frame snd_eng s ws r raw_input =
     (None, s\<lparr>transport := tr\<rparr>,
      [Log DEBUG ''Received input from %s'',
       Log ERROR ''Send to engine(s) that consume %s failed'',
       send_error_pf ws raw_input SERVER_DROPPED_FRAME])"
  by (simp add: consumer_pf_frame_def)

lemma producer_miss:
  "clients_pf s (fe_host fe, fe_port fe) = None \<Longrightarrow>
   producer_pf_step s fe = (None, s, [Log WARNING ''Result for nonexistant address %s''])"
  by (simp add: producer_pf_step_def)

lemma queue_result_miss:
  "clients s (key_of a) = None \<Longrightarrow> queue_result s result a = (Some AttributeError, s, [])"
  by (simp add: queue_result_def)

lemma add_filter_new:
  "filter_name \<notin> filters_consumed s \<Longrightarrow>
   add_filter_consumed s filter_name =
     (Some NameError, s\<lparr>filters_consumed := insert filter_name (filters_consumed s)\<rparr>)"
  by (simp add: add_filter_consumed_def global_clients_def)

lemma remove_filter_known:
  "filter_name \<in> filters_consumed s \<Longrightarrow>
   remove_filter_consumed s filter_name =
     (Some NameError, s\<lparr>filters_consumed := filters_consumed s - {filter_name}\<rparr>)"
  by (simp add: remove_filter_consumed_def global_clients_def)

lemma handler_pf_raises:
  "handler_pf s ws consumer = (Some TypeError, s, [Log INFO ''New Client connected: %s''])"
  by (simp add: handler_pf_def handler_pf_connect_def namedtuple_def)

text \<open>In \<^verbatim>\<open>client_comm.py\<close> nothing ever stores a string key in \<^verbatim>\<open>clients\<close>, so
  no run of a fresh server puts anything on the input queue.\<close>

lemma key_of_not_str: "key_of a \<noteq> KStr name" "KStr name \<noteq> key_of a"
  by (cases a; simp)+

lemma keys_are_addresses_step: "keys_are_addresses s \<Longrightarrow> keys_are_addresses (step s e)"
  by (cases e)
     (auto simp: key_of_not_str keys_are_addresses_def handler_connect_def
        consumer_handler_frame_def producer_handler_step_def queue_result_def
        handler_finally_def set_tokens_def Let_def
        split: option.splits list.splits prod.splits)

lemma keys_are_addresses_run: "keys_are_addresses s \<Longrightarrow> keys_are_addresses (run s es)"
  unfolding run_def
  by (induction es arbitrary: s) (simp_all add: keys_are_addresses_step)

lemma keys_are_addresses_announcing: "keys_are_addresses (run (announcing m n engines) es)"
  by (rule keys_are_addresses_run)
     (simp add: keys_are_addresses_def announcing_def WebsocketServer_def)

lemma available_engines_step: "available_engines (step s e) = available_engines s"
  by (cases e)
     (auto simp: handler_connect_def consumer_handler_frame_def producer_handler_step_def
        queue_result_def handler_finally_def set_tokens_def Let_def
        split: option.splits list.splits)

lemma available_engines_run: "available_engines (run s es) = available_engines s"
  unfolding run_def
  by (induction es arbitrary: s) (simp_all add: available_engines_step)

lemma input_queue_step: "keys_are_addresses s \<Longrightarrow> input_queue (step s e) = input_queue s"
  by (cases e)
     (auto simp: keys_are_addresses_def handler_connect_def consumer_handler_frame_def
        producer_handler_step_def queue_result_def handler_finally_def set_tokens_def Let_def
        split: option.splits list.splits prod.splits)

lemma input_queue_run: "keys_are_addresses s \<Longrightarrow> input_queue (run s es) = input_queue s"
  unfolding run_def
  by (induction es arbitrary: s) (simp_all add: keys_are_addresses_step input_queue_step)

lemma no_frame_is_ever_forwarded:
  "items (input_queue (run (WebsocketServer m n) es)) = []"
proof -
  have "keys_are_addresses (WebsocketServer m n)"
    by (simp add: keys_are_addresses_def WebsocketServer_def)
  then have "input_queue (run (WebsocketServer m n) es) = input_queue (WebsocketServer m n)"
    by (rule input_queue_run)
  then show ?thesis by (simp add: WebsocketServer_def)
qed

section \<open>The claims\<close>

text \<open>
  Claim C1, as amended. Where the configured allotment is not negative, no token counter
  is ever negative. In \<^verbatim>\<open>client_comm.py\<close> every run from a state whose counters are
  not negative (the fresh server is one) ends in such a state; a frame that arrives when
  the counter is zero is answered with one message of status \<open>NO_TOKENS\<close> and leaves
  the server, its input queue included, as it was. In the per-filter server every run,
  with whatever steps of other coroutines between a consumer's check and its decrement,
  keeps all counters of all ledgers non-negative, and a frame for a registered filter
  whose counter is zero is answered with one message of status \<open>NO_TOKENS\<close> and leaves
  the server, its transport included, as it was.
\<close>

theorem token_counters_never_negative:
  "(0 \<le> num_tokens s \<and> tokens_nonneg s \<longrightarrow> tokens_nonneg (run s es))
   \<and> (0 \<le> n \<longrightarrow> tokens_nonneg (run (WebsocketServer m n) es))
   \<and> (tokens (heap s r) = 0 \<longrightarrow>
        consumer_handler_frame s ws r raw_input =
          (s, [Log DEBUG ''Received input from %s'',
               Log ERROR ''Client %s sending without tokens'',
               Send ws \<lparr>tc_content = \<lparr>frame_id = fc_frame_id raw_input, status = NO_TOKENS,
                                      payload = []\<rparr>,
                        tc_num_tokens = 0\<rparr>]))
   \<and> (tokens_nonneg_pf p \<longrightarrow> tokens_nonneg_pf (run_pf snd_eng p es'))
   \<and> (filter_passed raw_input' \<in> filters_consumed p
        \<and> tokens_for_filter (heap_pf p r) (filter_passed raw_input') = Some 0 \<longrightarrow>
        consumer_pf_frame snd_eng p ws r raw_input' =
          (None, p, [Log DEBUG ''Received input from %s'',
                     Log ERROR ''Client %s sending output of filter %s without tokens'',
                     Send ws (Result_wrapper
                       \<lparr>rw_frame_id = pf_frame_id raw_input', rw_status = NO_TOKENS,
                        rw_filter_passed = [], rw_payload = []\<rparr>)]))"
proof (intro conjI impI)
  assume "0 \<le> num_tokens s \<and> tokens_nonneg s"
  then show "tokens_nonneg (run s es)" by (simp add: tokens_nonneg_run)
next
  assume "0 \<le> n"
  then show "tokens_nonneg (run (WebsocketServer m n) es)"
    by (intro tokens_nonneg_run tokens_nonneg_init) (simp add: WebsocketServer_def)
next
  assume z: "tokens (heap s r) = 0"
  then have "tokens (heap s r) \<le> 0" by simp
  from no_tokens_frame [OF this] z
  show "consumer_handler_frame s ws r raw_input =
          (s, [Log DEBUG ''Received input from %s'',
               Log ERROR ''Client %s sending without tokens'',
               Send ws \<lparr>tc_content = \<lparr>frame_id = fc_frame_id raw_input, status = NO_TOKENS,
                                      payload = []\<rparr>,
                        tc_num_tokens = 0\<rparr>])"
    by (simp add: send_error_def send_msg_def)
next
  assume "tokens_nonneg_pf p"
  then show "tokens_nonneg_pf (run_pf snd_eng p es')" by (rule tokens_nonneg_pf_run)
next
  assume h: "filter_passed raw_input' \<in> filters_consumed p
        \<and> tokens_for_filter (heap_pf p r) (filter_passed raw_input') = Some 0"
  have "consumer_pf_frame snd_eng p ws r raw_input' =
          (None, p, [Log DEBUG ''Received input from %s'',
                     Log ERROR ''Client %s sending output of filter %s without tokens'',
                     send_error_pf ws raw_input' NO_TOKENS])"
    using h by (intro no_tokens_pf [where t = 0]) simp_all
  then show "consumer_pf_frame snd_eng p ws r raw_input' =
          (None, p, [Log DEBUG ''Received input from %s'',
                     Log ERROR ''Client %s sending output of filter %s without tokens'',
                     Send ws (Result_wrapper
                       \<lparr>rw_frame_id = pf_frame_id raw_input', rw_status = NO_TOKENS,
                        rw_filter_passed = [], rw_payload = []\<rparr>)])"
    by (simp add: send_error_pf_def)
qed

theorem token_counters_never_negative_witness:
  "0 \<le> num_tokens zero_server \<and> tokens_nonneg zero_server
   \<and> tokens_nonneg (run zero_server [Frame ws_a 0 (frame_faces 1), Connect ws_a2])
   \<and> (0::int) \<le> 2
   \<and> tokens_nonneg (run (WebsocketServer 2 2) [Frame ws_a 0 (frame_faces 1), Connect ws_a2])
   \<and> tokens (heap zero_server 0) = 0
   \<and> consumer_handler_frame zero_server ws_a 0 (frame_faces 1) =
          (zero_server,
           [Log DEBUG ''Received input from %s'',
            Log ERROR ''Client %s sending without tokens'',
            Send ws_a \<lparr>tc_content = \<lparr>frame_id = fc_frame_id (frame_faces 1),
                                      status = NO_TOKENS, payload = []\<rparr>,
                        tc_num_tokens = 0\<rparr>])
   \<and> tokens_nonneg_pf (pf_session [''faces'' \<mapsto> 0] [])
   \<and> tokens_nonneg_pf (run_pf list_transport (pf_session [''faces'' \<mapsto> 0] [])
        [Result_pf (result_faces 1), Recv_pf ws_a 0 (frame_faces_pf 1),
         Result_pf (result_faces 2), Resume_pf 0])
   \<and> filter_passed (frame_faces_pf 1) \<in> filters_consumed (pf_session [''faces'' \<mapsto> 0] [])
   \<and> tokens_for_filter (heap_pf (pf_session [''faces'' \<mapsto> 0] []) 0)
        (filter_passed (frame_faces_pf 1)) = Some 0
   \<and> consumer_pf_frame list_transport (pf_session [''faces'' \<mapsto> 0] []) ws_a 0
        (frame_faces_pf 1) =
          (None, pf_session [''faces'' \<mapsto> 0] [],
           [Log DEBUG ''Received input from %s'',
            Log ERROR ''Client %s sending output of filter %s without tokens'',
            Send ws_a (Result_wrapper
              \<lparr>rw_frame_id = pf_frame_id (frame_faces_pf 1), rw_status = NO_TOKENS,
               rw_filter_passed = [], rw_payload = []\<rparr>)])"
proof -
  have h0: "(0::int) \<le> 2" by simp
  have h1: "0 \<le> num_tokens zero_server \<and> tokens_nonneg zero_server"
    by (simp add: zero_server_def handler_connect_def WebsocketServer_def tokens_nonneg_def)
  have h2: "tokens (heap zero_server 0) = 0"
    by (simp add: zero_server_def handler_connect_def WebsocketServer_def)
  have h3: "tokens_nonneg_pf (pf_session [''faces'' \<mapsto> 0] [])"
    by (simp add: tokens_nonneg_pf_def pf_session_def)
  have h4: "filter_passed (frame_faces_pf 1) \<in> filters_consumed (pf_session [''faces'' \<mapsto> 0] [])
   \<and> tokens_for_filter (heap_pf (pf_session [''faces'' \<mapsto> 0] []) 0)
        (filter_passed (frame_faces_pf 1)) = Some 0"
    by (simp add: pf_session_def frame_faces_pf_def)
  note t = token_counters_never_negative [where s = zero_server
      and es = "[Frame ws_a 0 (frame_faces 1), Connect ws_a2]" and n = 2 and m = 2
      and r = 0 and ws = ws_a and raw_input = "frame_faces 1"
      and p = "pf_session [''faces'' \<mapsto> 0] []" and snd_eng = list_transport
      and es' = "[Result_pf (result_faces 1), Recv_pf ws_a 0 (frame_faces_pf 1),
                  Result_pf (result_faces 2), Resume_pf 0]"
      and raw_input' = "frame_faces_pf 1"]
  from t h0 h1 h2 h3 h4 show ?thesis by blast
qed

text \<open>
  Counterexample to C1 as the specification words it: the constructor takes any integer
  as the allotment, and a session starts from it. On a server made with an allotment of
  \<open>-1\<close> the first client to connect has a counter of \<open>-1\<close>.
\<close>

theorem negative_allotment_counterexample:
  "num_tokens (WebsocketServer INPUT_QUEUE_MAXSIZE (- 1)) = - 1
   \<and> clients (run (WebsocketServer INPUT_QUEUE_MAXSIZE (- 1)) [Connect ws_a])
        (key_of (remote_address ws_a)) = Some 0
   \<and> next_ref (run (WebsocketServer INPUT_QUEUE_MAXSIZE (- 1)) [Connect ws_a]) = 1
   \<and> tokens (heap (run (WebsocketServer INPUT_QUEUE_MAXSIZE (- 1)) [Connect ws_a]) 0) = - 1
   \<and> \<not> tokens_nonneg (run (WebsocketServer INPUT_QUEUE_MAXSIZE (- 1)) [Connect ws_a])"
  by (simp add: run_def handler_connect_def WebsocketServer_def tokens_nonneg_def ws_a_def)

text \<open>
  Claim C2. A frame whose submission to the engines fails costs no token, and the client
  is told. In \<^verbatim>\<open>client_comm.py\<close> the counter is decremented, \<^verbatim>\<open>put_nowait\<close> raises
  \<^verbatim>\<open>queue.Full\<close> and the handler adds the token back: the server is as before and the
  client is sent one message, of status \<open>QUEUE_FULL\<close>, with its old token count. In the
  per-filter server a refused send is answered with one message of status
  \<open>SERVER_DROPPED_FRAME\<close> and only the transport may have changed, also when the send
  was awaited while other coroutines ran.
\<close>

theorem failed_submission_keeps_tokens:
  "(0 < tokens (heap s r) \<and> clients s (KStr (engine_name raw_input)) \<noteq> None
      \<and> put_nowait (input_queue s)
            \<lparr>tfe_host = fst (remote_address ws), tfe_port = snd (remote_address ws),
             tfe_from_client = raw_input\<rparr> = None \<longrightarrow>
      consumer_handler_frame s ws r raw_input =
        (s, [Log DEBUG ''Received input from %s'', Log WARNING ''Queue full'',
             Send ws \<lparr>tc_content = \<lparr>frame_id = fc_frame_id raw_input, status = QUEUE_FULL,
                                    payload = []\<rparr>,
                      tc_num_tokens = tokens (heap s r)\<rparr>]))
   \<and> (filter_passed raw_input' \<in> filters_consumed p
      \<and> tokens_for_filter (heap_pf p r) (filter_passed raw_input') = Some t \<and> 1 \<le> t
      \<and> snd_eng (transport p)
            \<lparr>te_host = fst (remote_address ws), te_port = snd (remote_address ws),
             te_from_client = raw_input'\<rparr> = (False, tr) \<longrightarrow>
      consumer_pf_frame snd_eng p ws r raw_input' =
        (None, p\<lparr>transport := tr\<rparr>,
         [Log DEBUG ''Received input from %s'',
          Log ERROR ''Send to engine(s) that consume %s failed'',
          Send ws (Result_wrapper
            \<lparr>rw_frame_id = pf_frame_id raw_input', rw_status = SERVER_DROPPED_FRAME,
             rw_filter_passed = [], rw_payload = []\<rparr>)])
      \<and> heap_pf (p\<lparr>transport := tr\<rparr>) = heap_pf p)
   \<and> (snd_eng (transport p)
            \<lparr>te_host = fst (remote_address ws), te_port = snd (remote_address ws),
             te_from_client = raw_input'\<rparr> = (False, tr) \<longrightarrow>
      consumer_pf_resume snd_eng p ws r raw_input' =
        (None, p\<lparr>transport := tr\<rparr>,
         [Log ERROR ''Send to engine(s) that consume %s failed'',
          Send ws (Result_wrapper
            \<lparr>rw_frame_id = pf_frame_id raw_input', rw_status = SERVER_DROPPED_FRAME,
             rw_filter_passed = [], rw_payload = []\<rparr>)]))"
  by (simp add: queue_full_frame dropped_pf consumer_pf_resume_def send_error_def send_msg_def
      send_error_pf_def)

theorem failed_submission_keeps_tokens_witness:
  "0 < tokens (heap keyed_full_server 0)
   \<and> clients keyed_full_server (KStr (engine_name (frame_faces 3))) \<noteq> None
   \<and> put_nowait (input_queue keyed_full_server)
            \<lparr>tfe_host = fst (remote_address ws_a), tfe_port = snd (remote_address ws_a),
             tfe_from_client = frame_faces 3\<rparr> = None
   \<and> consumer_handler_frame keyed_full_server ws_a 0 (frame_faces 3) =
        (keyed_full_server,
         [Log DEBUG ''Received input from %s'', Log WARNING ''Queue full'',
          Send ws_a \<lparr>tc_content = \<lparr>frame_id = fc_frame_id (frame_faces 3),
                                    status = QUEUE_FULL, payload = []\<rparr>,
                      tc_num_tokens = tokens (heap keyed_full_server 0)\<rparr>])
   \<and> filter_passed (frame_faces_pf 3) \<in> filters_consumed (pf_session [''faces'' \<mapsto> 2] full_tr)
   \<and> tokens_for_filter (heap_pf (pf_session [''faces'' \<mapsto> 2] full_tr) 0)
        (filter_passed (frame_faces_pf 3)) = Some 2
   \<and> (1::int) \<le> 2
   \<and> list_transport (transport (pf_session [''faces'' \<mapsto> 2] full_tr))
            \<lparr>te_host = fst (remote_address ws_a), te_port = snd (remote_address ws_a),
             te_from_client = frame_faces_pf 3\<rparr> = (False, full_tr)
   \<and> consumer_pf_frame list_transport (pf_session [''faces'' \<mapsto> 2] full_tr) ws_a 0
        (frame_faces_pf 3) =
        (None, (pf_session [''faces'' \<mapsto> 2] full_tr)\<lparr>transport := full_tr\<rparr>,
         [Log DEBUG ''Received input from %s'',
          Log ERROR ''Send to engine(s) that consume %s failed'',
          Send ws_a (Result_wrapper
            \<lparr>rw_frame_id = pf_frame_id (frame_faces_pf 3), rw_status = SERVER_DROPPED_FRAME,
             rw_filter_passed = [], rw_payload = []\<rparr>)])
   \<and> consumer_pf_resume list_transport (pf_session [''faces'' \<mapsto> 2] full_tr) ws_a 0
        (frame_faces_pf 3) =
        (None, (pf_session [''faces'' \<mapsto> 2] full_tr)\<lparr>transport := full_tr\<rparr>,
         [Log ERROR ''Send to engine(s) that consume %s failed'',
          Send ws_a (Result_wrapper
            \<lparr>rw_frame_id = pf_frame_id (frame_faces_pf 3), rw_status = SERVER_DROPPED_FRAME,
             rw_filter_passed = [], rw_payload = []\<rparr>)])"
proof -
  have h1: "0 < tokens (heap keyed_full_server 0)
   \<and> clients keyed_full_server (KStr (engine_name (frame_faces 3))) \<noteq> None
   \<and> put_nowait (input_queue keyed_full_server)
            \<lparr>tfe_host = fst (remote_address ws_a), tfe_port = snd (remote_address ws_a),
             tfe_from_client = frame_faces 3\<rparr> = None"
    by (simp add: keyed_full_server_def connected_server_def default_server_def
        handler_connect_def WebsocketServer_def NUM_TOKENS_def frame_faces_def put_nowait_def)
  have h2: "filter_passed (frame_faces_pf 3) \<in> filters_consumed (pf_session [''faces'' \<mapsto> 2] full_tr)
   \<and> tokens_for_filter (heap_pf (pf_session [''faces'' \<mapsto> 2] full_tr) 0)
        (filter_passed (frame_faces_pf 3)) = Some 2
   \<and> (1::int) \<le> 2
   \<and> list_transport (transport (pf_session [''faces'' \<mapsto> 2] full_tr))
            \<lparr>te_host = fst (remote_address ws_a), te_port = snd (remote_address ws_a),
             te_from_client = frame_faces_pf 3\<rparr> = (False, full_tr)"
    by (simp add: pf_session_def frame_faces_pf_def list_transport_def full_tr_def)
  note t = failed_submission_keeps_tokens [where s = keyed_full_server and r = 0 and ws = ws_a
      and raw_input = "frame_faces 3" and p = "pf_session [''faces'' \<mapsto> 2] full_tr"
      and raw_input' = "frame_faces_pf 3" and t = 2 and snd_eng = list_transport
      and tr = full_tr]
  from t h1 h2 show ?thesis by blast
qed

text \<open>
  Claim C3. A result for an identity that is not in the registry is to be dropped with
  one warning and without an exception. \<^verbatim>\<open>queue_result\<close> of \<^verbatim>\<open>client_comm.py\<close> does
  not do that: for the connected default server and a result addressed to an endpoint
  that never connected it raises \<^verbatim>\<open>AttributeError\<close>, logs no warning, and leaves the
  server as it was.
\<close>

theorem queue_result_unknown_address_raises:
  "clients connected_server (key_of (''10.0.0.9'', 6000)) = None
   \<and> queue_result connected_server \<lparr>frame_id = 7, status = SUCCESS, payload = ''box''\<rparr>
        (''10.0.0.9'', 6000) = (Some AttributeError, connected_server, [])
   \<and> logged WARNING (snd (snd (queue_result connected_server
        \<lparr>frame_id = 7, status = SUCCESS, payload = ''box''\<rparr> (''10.0.0.9'', 6000)))) = []"
proof -
  have m: "clients connected_server (key_of (''10.0.0.9'', 6000)) = None"
    by (simp add: connected_server_def handler_connect_def default_server_def
        WebsocketServer_def ws_a_def)
  from queue_result_miss [OF m] m show ?thesis by simp
qed

text \<open>
  Claim C4, as amended. A frame for a category that is not in the set of registered ones
  is answered with one message of the not-available status, is not forwarded and costs
  no token: in the per-filter server whatever the ledger holds (the registration check
  comes first, and the server is left as it was); in \<^verbatim>\<open>client_comm.py\<close>, where the
  token check comes first, in every state a server reaches, for a client whose counter
  is positive. A client without tokens is answered with one message of status
  \<open>NO_TOKENS\<close> there, whatever the engine name; the server is left as it was in that
  case too.
\<close>

theorem unregistered_category_reply:
  "(filter_passed raw_input' \<notin> filters_consumed p \<longrightarrow>
      consumer_pf_frame snd_eng p ws r raw_input' =
        (None, p, [Log DEBUG ''Received input from %s'',
                   Log ERROR ''No engines consume frames from %s'',
                   Send ws (Result_wrapper
                     \<lparr>rw_frame_id = pf_frame_id raw_input',
                      rw_status = NO_ENGINE_FOR_FILTER_PASSED,
                      rw_filter_passed = [], rw_payload = []\<rparr>)]))
   \<and> (s = run (announcing m n engines) es
      \<and> engine_name raw_input \<notin> available_engines s \<and> 0 < tokens (heap s r) \<longrightarrow>
      consumer_handler_frame s ws r raw_input =
        (s, [Log DEBUG ''Received input from %s'', Log WARNING ''Engine Not Available'',
             Send ws \<lparr>tc_content = \<lparr>frame_id = fc_frame_id raw_input,
                                    status = REQUESTED_ENGINE_NOT_AVAILABLE, payload = []\<rparr>,
                      tc_num_tokens = tokens (heap s r)\<rparr>]))
   \<and> (engine_name raw_input \<notin> available_engines s \<and> tokens (heap s r) \<le> 0 \<longrightarrow>
      consumer_handler_frame s ws r raw_input =
        (s, [Log DEBUG ''Received input from %s'',
             Log ERROR ''Client %s sending without tokens'',
             Send ws \<lparr>tc_content = \<lparr>frame_id = fc_frame_id raw_input, status = NO_TOKENS,
                                    payload = []\<rparr>,
                      tc_num_tokens = tokens (heap s r)\<rparr>]))"
proof (intro conjI impI)
  assume "filter_passed raw_input' \<notin> filters_consumed p"
  from no_engine_pf [OF this]
  show "consumer_pf_frame snd_eng p ws r raw_input' =
        (None, p, [Log DEBUG ''Received input from %s'',
                   Log ERROR ''No engines consume frames from %s'',
                   Send ws (Result_wrapper
                     \<lparr>rw_frame_id = pf_frame_id raw_input',
                      rw_status = NO_ENGINE_FOR_FILTER_PASSED,
                      rw_filter_passed = [], rw_payload = []\<rparr>)])"
    by (simp add: send_error_pf_def)
next
  assume h: "s = run (announcing m n engines) es
      \<and> engine_name raw_input \<notin> available_engines s \<and> 0 < tokens (heap s r)"
  then have reached: "s = run (announcing m n engines) es"
    and pos: "0 < tokens (heap s r)" by blast+
  have "keys_are_addresses s"
    unfolding reached by (rule keys_are_addresses_announcing)
  then have "clients s (KStr (engine_name raw_input)) = None"
    by (simp add: keys_are_addresses_def)
  from not_available_frame [OF pos this]
  have "consumer_handler_frame s ws r raw_input =
     (s, [Log DEBUG ''Received input from %s'', Log WARNING ''Engine Not Available'',
          send_error ws raw_input (tokens (heap s r)) REQUESTED_ENGINE_NOT_AVAILABLE])" .
  then show "consumer_handler_frame s ws r raw_input =
        (s, [Log DEBUG ''Received input from %s'', Log WARNING ''Engine Not Available'',
             Send ws \<lparr>tc_content = \<lparr>frame_id = fc_frame_id raw_input,
                                    status = REQUESTED_ENGINE_NOT_AVAILABLE, payload = []\<rparr>,
                      tc_num_tokens = tokens (heap s r)\<rparr>])"
    by (simp add: send_error_def send_msg_def)
next
  assume "engine_name raw_input \<notin> available_engines s \<and> tokens (heap s r) \<le> 0"
  then have "tokens (heap s r) \<le> 0" by simp
  from no_tokens_frame [OF this]
  show "consumer_handler_frame s ws r raw_input =
        (s, [Log DEBUG ''Received input from %s'',
             Log ERROR ''Client %s sending without tokens'',
             Send ws \<lparr>tc_content = \<lparr>frame_id = fc_frame_id raw_input, status = NO_TOKENS,
                                    payload = []\<rparr>,
                      tc_num_tokens = tokens (heap s r)\<rparr>])"
    by (simp add: send_error_def send_msg_def)
qed

theorem unregistered_category_reply_witness:
  "filter_passed ((frame_faces_pf 1)\<lparr>filter_passed := ''cars''\<rparr>)
      \<notin> filters_consumed (pf_session [''faces'' \<mapsto> 0] [])
   \<and> consumer_pf_frame list_transport (pf_session [''faces'' \<mapsto> 0] []) ws_a 0
        ((frame_faces_pf 1)\<lparr>filter_passed := ''cars''\<rparr>) =
        (None, pf_session [''faces'' \<mapsto> 0] [],
         [Log DEBUG ''Received input from %s'',
          Log ERROR ''No engines consume frames from %s'',
          Send ws_a (Result_wrapper
            \<lparr>rw_frame_id = pf_frame_id ((frame_faces_pf 1)\<lparr>filter_passed := ''cars''\<rparr>),
             rw_status = NO_ENGINE_FOR_FILTER_PASSED,
             rw_filter_passed = [], rw_payload = []\<rparr>)])
   \<and> run (announcing 2 2 {''faces''}) [Connect ws_a]
        = run (announcing 2 2 {''faces''}) [Connect ws_a]
   \<and> available_engines (run (announcing 2 2 {''faces''}) [Connect ws_a]) = {''faces''}
   \<and> engine_name (frame_cars 1)
        \<notin> available_engines (run (announcing 2 2 {''faces''}) [Connect ws_a])
   \<and> 0 < tokens (heap (run (announcing 2 2 {''faces''}) [Connect ws_a]) 0)
   \<and> consumer_handler_frame (run (announcing 2 2 {''faces''}) [Connect ws_a]) ws_a 0
        (frame_cars 1) =
        (run (announcing 2 2 {''faces''}) [Connect ws_a],
         [Log DEBUG ''Received input from %s'', Log WARNING ''Engine Not Available'',
          Send ws_a \<lparr>tc_content = \<lparr>frame_id = fc_frame_id (frame_cars 1),
                                    status = REQUESTED_ENGINE_NOT_AVAILABLE, payload = []\<rparr>,
                      tc_num_tokens =
                        tokens (heap (run (announcing 2 2 {''faces''}) [Connect ws_a]) 0)\<rparr>])
   \<and> engine_name (frame_cars 1)
        \<notin> available_engines (run (announcing 2 0 {''faces''}) [Connect ws_a])
   \<and> tokens (heap (run (announcing 2 0 {''faces''}) [Connect ws_a]) 0) \<le> 0
   \<and> consumer_handler_frame (run (announcing 2 0 {''faces''}) [Connect ws_a]) ws_a 0
        (frame_cars 1) =
        (run (announcing 2 0 {''faces''}) [Connect ws_a],
         [Log DEBUG ''Received input from %s'',
          Log ERROR ''Client %s sending without tokens'',
          Send ws_a \<lparr>tc_content = \<lparr>frame_id = fc_frame_id (frame_cars 1),
                                    status = NO_TOKENS, payload = []\<rparr>,
                      tc_num_tokens =
                        tokens (heap (run (announcing 2 0 {''faces''}) [Connect ws_a]) 0)\<rparr>])"
proof -
  have h1: "filter_passed ((frame_faces_pf 1)\<lparr>filter_passed := ''cars''\<rparr>)
      \<notin> filters_consumed (pf_session [''faces'' \<mapsto> 0] [])"
    by (simp add: pf_session_def)
  have h2: "available_engines (run (announcing 2 2 {''faces''}) [Connect ws_a]) = {''faces''}"
    "engine_name (frame_cars 1)
        \<notin> available_engines (run (announcing 2 2 {''faces''}) [Connect ws_a])"
    "0 < tokens (heap (run (announcing 2 2 {''faces''}) [Connect ws_a]) 0)"
    by (simp_all add: run_def announcing_def handler_connect_def WebsocketServer_def
        frame_cars_def)
  have h3: "engine_name (frame_cars 1)
        \<notin> available_engines (run (announcing 2 0 {''faces''}) [Connect ws_a])"
    "tokens (heap (run (announcing 2 0 {''faces''}) [Connect ws_a]) 0) \<le> 0"
    by (simp_all add: run_def announcing_def handler_connect_def WebsocketServer_def
        frame_cars_def)
  note t1 = unregistered_category_reply [where p = "pf_session [''faces'' \<mapsto> 0] []"
      and raw_input' = "(frame_faces_pf 1)\<lparr>filter_passed := ''cars''\<rparr>"
      and snd_eng = list_transport and ws = ws_a and r = 0
      and s = "run (announcing 2 2 {''faces''}) [Connect ws_a]"
      and m = 2 and n = 2 and engines = "{''faces''}" and es = "[Connect ws_a]"
      and raw_input = "frame_cars 1"]
  note t2 = unregistered_category_reply [where p = "pf_session [''faces'' \<mapsto> 0] []"
      and raw_input' = "(frame_faces_pf 1)\<lparr>filter_passed := ''cars''\<rparr>"
      and snd_eng = list_transport and ws = ws_a and r = 0
      and s = "run (announcing 2 0 {''faces''}) [Connect ws_a]"
      and raw_input = "frame_cars 1"]
  from t1 t2 h1 h2 h3 show ?thesis by blast
qed

text \<open>
  Counterexample to C4 as the specification words it (``regardless of the client's
  current token count''): a server of \<^verbatim>\<open>client_comm.py\<close> configured with no tokens,
  one client connected, a frame for the engine \<open>faces\<close>, which is neither announced nor
  a key of \<^verbatim>\<open>clients\<close>. The one reply carries \<open>NO_TOKENS\<close>.
\<close>

theorem unregistered_engine_without_tokens_counterexample:
  "''faces'' \<notin> available_engines zero_server
   \<and> clients zero_server (KStr ''faces'') = None
   \<and> engine_name (frame_faces 1) = ''faces''
   \<and> tokens (heap zero_server 0) = 0
   \<and> consumer_handler_frame zero_server ws_a 0 (frame_faces 1) =
       (zero_server, [Log DEBUG ''Received input from %s'',
                      Log ERROR ''Client %s sending without tokens'',
                      send_error ws_a (frame_faces 1) 0 NO_TOKENS])
   \<and> map (status \<circ> tc_content \<circ> snd)
         (sends (snd (consumer_handler_frame zero_server ws_a 0 (frame_faces 1)))) = [NO_TOKENS]"
proof -
  have z: "tokens (heap zero_server 0) = 0"
    by (simp add: zero_server_def handler_connect_def WebsocketServer_def)
  then have "tokens (heap zero_server 0) \<le> 0" by simp
  from no_tokens_frame [OF this, of ws_a "frame_faces 1"] z
  have c: "consumer_handler_frame zero_server ws_a 0 (frame_faces 1) =
       (zero_server, [Log DEBUG ''Received input from %s'',
                      Log ERROR ''Client %s sending without tokens'',
                      send_error ws_a (frame_faces 1) 0 NO_TOKENS])" by simp
  have a: "''faces'' \<notin> available_engines zero_server \<and> clients zero_server (KStr ''faces'') = None"
    by (simp add: zero_server_def handler_connect_def WebsocketServer_def ws_a_def)
  from a z c show ?thesis by (simp add: frame_faces_def send_error_def send_msg_def)
qed

text \<open>
  Claim C5. With the defaults (two tokens, a queue of two) and the engine \<open>faces\<close>
  announced as available, a fresh client's three frames for \<open>faces\<close> are to go
  forwarded, forwarded, \<open>NO_TOKENS\<close>, the counter going 2, 1, 0. The consumer of
  \<^verbatim>\<open>client_comm.py\<close> answers all three with \<open>REQUESTED_ENGINE_NOT_AVAILABLE\<close>, keeps
  the counter at 2 and puts nothing on the input queue: it looks the engine name up in
  \<^verbatim>\<open>self.clients\<close>, whose keys are addresses.
\<close>

theorem three_frames_all_refused:
  "''faces'' \<in> available_engines connected_server
   \<and> tokens (heap connected_server 0) = 2
   \<and> items (input_queue connected_server) = []
   \<and> consumer_handler connected_server ws_a 0 [frame_faces 1, frame_faces 2, frame_faces 3] =
       (connected_server,
        [Log DEBUG ''Received input from %s'', Log WARNING ''Engine Not Available'',
         send_error ws_a (frame_faces 1) 2 REQUESTED_ENGINE_NOT_AVAILABLE,
         Log DEBUG ''Received input from %s'', Log WARNING ''Engine Not Available'',
         send_error ws_a (frame_faces 2) 2 REQUESTED_ENGINE_NOT_AVAILABLE,
         Log DEBUG ''Received input from %s'', Log WARNING ''Engine Not Available'',
         send_error ws_a (frame_faces 3) 2 REQUESTED_ENGINE_NOT_AVAILABLE])"
proof -
  have h: "clients connected_server (KStr ''faces'') = None"
    "tokens (heap connected_server 0) = 2"
    "''faces'' \<in> available_engines connected_server"
    "items (input_queue connected_server) = []"
    by (simp_all add: connected_server_def handler_connect_def default_server_def
        WebsocketServer_def NUM_TOKENS_def ws_a_def)
  have f: "consumer_handler_frame connected_server ws_a 0 (frame_faces i) =
     (connected_server,
      [Log DEBUG ''Received input from %s'', Log WARNING ''Engine Not Available'',
       send_error ws_a (frame_faces i) 2 REQUESTED_ENGINE_NOT_AVAILABLE])" for i
    using not_available_frame [of connected_server 0 "frame_faces i" ws_a] h
    by (simp add: frame_faces_def)
  show ?thesis using h by (simp add: f)
qed

text \<open>
  Claim C6, as amended. \<^verbatim>\<open>handler\<close> of \<^verbatim>\<open>client_comm.py\<close> never refuses a
  connection: it makes a fresh session (the configured tokens, an empty result queue)
  and stores it under the remote address, replacing whatever entry was there. Every
  other registry entry and every session object that existed before, the replaced one
  included, is as it was.
\<close>

theorem connect_overwrites_registry_entry:
  "fst (handler_connect s ws) = next_ref s
   \<and> clients (fst (snd (handler_connect s ws))) (key_of (remote_address ws)) = Some (next_ref s)
   \<and> heap (fst (snd (handler_connect s ws))) (next_ref s) =
       \<lparr>result_queue = Some [], tokens = num_tokens s\<rparr>
   \<and> (\<forall>k. k \<noteq> key_of (remote_address ws) \<longrightarrow>
         clients (fst (snd (handler_connect s ws))) k = clients s k)
   \<and> (\<forall>r. r \<noteq> next_ref s \<longrightarrow> heap (fst (snd (handler_connect s ws))) r = heap s r)"
  by (simp add: handler_connect_def Let_def)

theorem connect_overwrites_registry_entry_witness:
  "fst (handler_connect queued_server ws_a2) = next_ref queued_server
   \<and> clients queued_server (key_of (remote_address ws_a2)) = Some 0
   \<and> clients (fst (snd (handler_connect queued_server ws_a2))) (key_of (remote_address ws_a2))
       = Some (next_ref queued_server)
   \<and> next_ref queued_server = 1
   \<and> heap (fst (snd (handler_connect queued_server ws_a2))) (next_ref queued_server) =
       \<lparr>result_queue = Some [], tokens = num_tokens queued_server\<rparr>
   \<and> KAddr ''10.0.0.9'' 6000 \<noteq> key_of (remote_address ws_a2)
   \<and> clients (fst (snd (handler_connect queued_server ws_a2))) (KAddr ''10.0.0.9'' 6000)
       = clients queued_server (KAddr ''10.0.0.9'' 6000)
   \<and> 0 \<noteq> next_ref queued_server
   \<and> heap (fst (snd (handler_connect queued_server ws_a2))) 0 = heap queued_server 0"
proof -
  have h: "clients queued_server (key_of (remote_address ws_a2)) = Some 0"
    "next_ref queued_server = 1" "KAddr ''10.0.0.9'' 6000 \<noteq> key_of (remote_address ws_a2)"
    "0 \<noteq> next_ref queued_server"
    by (simp_all add: queued_server_def connected_server_def default_server_def
        handler_connect_def queue_result_def WebsocketServer_def ws_a_def ws_a2_def)
  note t = connect_overwrites_registry_entry [of queued_server ws_a2]
  from t h show ?thesis by blast
qed

text \<open>
  Counterexample to C6 as the specification words it: a client is connected and has one
  result queued; a second connection arrives from the same remote endpoint. The handler
  returns a new session and the registry entry of that endpoint now names it, with an
  empty queue, instead of the session that was registered.
\<close>

theorem duplicate_connect_counterexample:
  "remote_address ws_a2 = remote_address ws_a
   \<and> clients queued_server (key_of (remote_address ws_a2)) = Some 0
   \<and> heap queued_server 0 =
       \<lparr>result_queue = Some [\<lparr>frame_id = 1, status = SUCCESS, payload = ''box''\<rparr>],
        tokens = 2\<rparr>
   \<and> handler_connect queued_server ws_a2 =
       (1, reconnected_server, [Log INFO ''New Client connected: %s''])
   \<and> clients reconnected_server (key_of (remote_address ws_a2)) = Some 1
   \<and> heap reconnected_server 1 = \<lparr>result_queue = Some [], tokens = 2\<rparr>"
  by (simp add: reconnected_server_def queued_server_def connected_server_def default_server_def
      handler_connect_def queue_result_def WebsocketServer_def NUM_TOKENS_def ws_a_def ws_a2_def)

text \<open>
  Claim C7. Registering a filter is to give every live session a counter for it, and
  deregistering it is to delete that counter everywhere. In the source both functions
  change the set and then raise \<^verbatim>\<open>NameError\<close> at \<^verbatim>\<open>for client in clients\<close>: with
  one session stored, \<^verbatim>\<open>add_filter_consumed\<close> leaves its ledger without the new
  counter, and \<^verbatim>\<open>remove_filter_consumed\<close> leaves the counter of the removed filter
  in place.
\<close>

theorem filter_registration_raises_name_error:
  "clients_pf pf_unregistered (''10.0.0.1'', 5000) = Some 0
   \<and> add_filter_consumed pf_unregistered ''faces'' =
       (Some NameError, pf_unregistered\<lparr>filters_consumed := {''faces''}\<rparr>)
   \<and> tokens_for_filter (heap_pf (snd (add_filter_consumed pf_unregistered ''faces'')) 0) ''faces''
       = None
   \<and> remove_filter_consumed (pf_session [''faces'' \<mapsto> 2] []) ''faces'' =
       (Some NameError, (pf_session [''faces'' \<mapsto> 2] [])\<lparr>filters_consumed := {}\<rparr>)
   \<and> tokens_for_filter
        (heap_pf (snd (remove_filter_consumed (pf_session [''faces'' \<mapsto> 2] []) ''faces'')) 0)
        ''faces'' = Some 2"
proof -
  have a: "''faces'' \<notin> filters_consumed pf_unregistered"
    by (simp add: pf_unregistered_def)
  have r: "''faces'' \<in> filters_consumed (pf_session [''faces'' \<mapsto> 2] [])"
    by (simp add: pf_session_def)
  show ?thesis
    by (simp add: add_filter_new [OF a] remove_filter_known [OF r])
       (simp add: pf_unregistered_def pf_session_def)
qed

text \<open>
  Claim C8, as amended. The teardown of a connection is the \<^verbatim>\<open>finally\<close> clause of its
  handler, \<^verbatim>\<open>del self.clients[address]\<close>, and each run of the handler executes it
  once. Where the identity has an entry it removes that entry and nothing else; where
  it has none it raises \<^verbatim>\<open>KeyError\<close> and leaves the server as it was. So a teardown
  repeated for the same identity always raises. A handler during whose session the entry
  of its identity stays in place ends without an error and with that entry removed.
  The clause of the per-filter server behaves the same.
\<close>

theorem teardown_removes_entry_or_raises:
  "(clients s (key_of (remote_address ws)) \<noteq> None \<longrightarrow>
      handler_finally s ws =
        (None, s\<lparr>clients := (clients s)(key_of (remote_address ws) := None)\<rparr>,
         [Log INFO ''Client disconnected: %s'']))
   \<and> (clients s (key_of (remote_address ws)) = None \<longrightarrow>
      handler_finally s ws = (Some KeyError, s, []))
   \<and> handler_finally (fst (snd (handler_finally s ws))) ws =
       (Some KeyError, fst (snd (handler_finally s ws)), [])
   \<and> (clients (fst (duties (next_ref s) (fst (snd (handler_connect s ws)))))
          (key_of (remote_address ws)) \<noteq> None \<longrightarrow>
      fst (handler s ws duties) = None
      \<and> clients (fst (snd (handler s ws duties))) (key_of (remote_address ws)) = None)
   \<and> (clients_pf p (remote_address ws) \<noteq> None \<longrightarrow>
      handler_pf_finally p ws =
        (None, p\<lparr>clients_pf := (clients_pf p)(remote_address ws := None)\<rparr>,
         [Log INFO ''Client disconnected: %s'']))
   \<and> (clients_pf p (remote_address ws) = None \<longrightarrow>
      handler_pf_finally p ws = (Some KeyError, p, []))"
  by (auto simp: handler_finally_def handler_def handler_pf_finally_def handler_connect_def
      Let_def
      split: option.splits prod.splits)

theorem teardown_removes_entry_or_raises_witness:
  "clients connected_server (key_of (remote_address ws_a)) \<noteq> None
   \<and> handler_finally connected_server ws_a =
        (None, connected_server
                 \<lparr>clients := (clients connected_server)(key_of (remote_address ws_a) := None)\<rparr>,
         [Log INFO ''Client disconnected: %s''])
   \<and> clients default_server (key_of (remote_address ws_a)) = None
   \<and> handler_finally default_server ws_a = (Some KeyError, default_server, [])
   \<and> clients (fst (no_duties (next_ref default_server)
                      (fst (snd (handler_connect default_server ws_a)))))
          (key_of (remote_address ws_a)) \<noteq> None
   \<and> fst (handler default_server ws_a no_duties) = None
   \<and> clients (fst (snd (handler default_server ws_a no_duties))) (key_of (remote_address ws_a))
        = None
   \<and> clients_pf (pf_session Map.empty []) (remote_address ws_a) \<noteq> None
   \<and> handler_pf_finally (pf_session Map.empty []) ws_a =
        (None, (pf_session Map.empty [])
                 \<lparr>clients_pf := (clients_pf (pf_session Map.empty []))(remote_address ws_a := None)\<rparr>,
         [Log INFO ''Client disconnected: %s''])
   \<and> clients_pf (WebsocketServer_pf 2 ([] :: to_engine list)) (remote_address ws_a) = None
   \<and> handler_pf_finally (WebsocketServer_pf 2 ([] :: to_engine list)) ws_a =
        (Some KeyError, WebsocketServer_pf 2 [], [])"
proof -
  have h1: "clients connected_server (key_of (remote_address ws_a)) \<noteq> None"
    by (simp add: connected_server_def handler_connect_def Let_def)
  have h2: "clients default_server (key_of (remote_address ws_a)) = None"
    by (simp add: default_server_def WebsocketServer_def)
  have h3: "clients (fst (no_duties (next_ref default_server)
                      (fst (snd (handler_connect default_server ws_a)))))
          (key_of (remote_address ws_a)) \<noteq> None"
    by (simp add: no_duties_def handler_connect_def Let_def)
  have h4: "clients_pf (pf_session Map.empty []) (remote_address ws_a) \<noteq> None"
    by (simp add: pf_session_def ws_a_def)
  have h5: "clients_pf (WebsocketServer_pf 2 ([] :: to_engine list)) (remote_address ws_a) = None"
    by (simp add: WebsocketServer_pf_def)
  note t1 = teardown_removes_entry_or_raises [where s = connected_server and ws = ws_a
      and p = "pf_session Map.empty []"]
  note t2 = teardown_removes_entry_or_raises [where s = default_server and ws = ws_a
      and duties = no_duties and p = "WebsocketServer_pf 2 ([] :: to_engine list)"]
  from t1 t2 h1 h2 h3 h4 h5 show ?thesis by blast
qed

text \<open>
  Counterexample to C8 as the specification words it: on the connected default server
  the teardown of the client's identity succeeds once, and raises \<^verbatim>\<open>KeyError\<close> when it
  is performed again.
\<close>

theorem second_teardown_raises_counterexample:
  "clients connected_server (key_of (remote_address ws_a)) = Some 0
   \<and> fst (handler_finally connected_server ws_a) = None
   \<and> fst (handler_finally (fst (snd (handler_finally connected_server ws_a))) ws_a)
       = Some KeyError"
  by (simp add: connected_server_def default_server_def handler_connect_def handler_finally_def
      WebsocketServer_def ws_a_def)

text \<open>
  Claim C9. A welcome message with the registered filters and the allotment is to be
  sent once, right after the connection is accepted. \<^verbatim>\<open>_handler\<close> never gets there:
  for a server with the filter \<open>faces\<close> registered, and for every other server, it
  raises \<^verbatim>\<open>TypeError\<close> where it builds the session, having logged the connection and
  sent nothing; the server is as it was.
\<close>

theorem handler_pf_raises_before_welcome:
  "handler_pf (pf_session Map.empty []) ws_a consumer =
     (Some TypeError, pf_session Map.empty [], [Log INFO ''New Client connected: %s''])
   \<and> sends (snd (snd (handler_pf (pf_session Map.empty []) ws_a consumer))) = []
   \<and> handler_pf_connect s ws = (Some TypeError, s, [Log INFO ''New Client connected: %s''])"
  by (simp add: handler_pf_raises) (simp add: handler_pf_connect_def namedtuple_def)

text \<open>
  Claim C10. The producer of the per-filter server refunds the token to the counter the
  result names, without looking whether the client's ledger has that counter. For a
  result whose client is registered: if the ledger has the counter, it goes up by exactly
  one, no other counter and no other session changes, and the result is sent on the
  client's connection; if the ledger has no such counter, \<^verbatim>\<open>KeyError\<close> is raised,
  nothing is sent or logged, the server is as it was, and the producer's loop ends there
  with the results behind it unread.
\<close>

theorem producer_refund_needs_ledger_key:
  "clients_pf s (fe_host fe, fe_port fe) = Some r \<Longrightarrow>
   (tokens_for_filter (heap_pf s r) (rw_filter_passed (fe_result_wrapper fe)) = Some t \<longrightarrow>
      producer_pf_step s fe =
        (None, set_counter s r (rw_filter_passed (fe_result_wrapper fe)) (t + 1),
         [Log DEBUG ''Sending to %s'',
          Send (cl_websocket (heap_pf s r)) (Result_wrapper (fe_result_wrapper fe))])
      \<and> tokens_for_filter
          (heap_pf (set_counter s r (rw_filter_passed (fe_result_wrapper fe)) (t + 1)) r)
          (rw_filter_passed (fe_result_wrapper fe)) = Some (t + 1)
      \<and> (\<forall>f. f \<noteq> rw_filter_passed (fe_result_wrapper fe) \<longrightarrow>
            tokens_for_filter
              (heap_pf (set_counter s r (rw_filter_passed (fe_result_wrapper fe)) (t + 1)) r) f
            = tokens_for_filter (heap_pf s r) f)
      \<and> (\<forall>r'. r' \<noteq> r \<longrightarrow>
            heap_pf (set_counter s r (rw_filter_passed (fe_result_wrapper fe)) (t + 1)) r'
            = heap_pf s r'))
   \<and> (tokens_for_filter (heap_pf s r) (rw_filter_passed (fe_result_wrapper fe)) = None \<longrightarrow>
      producer_pf_step s fe = (Some KeyError, s, [])
      \<and> producer_pf s (fe # rest) = (Some KeyError, s, []))"
  by (simp add: producer_pf_step_def set_counter_def Let_def)

theorem producer_refund_needs_ledger_key_witness:
  "clients_pf (pf_session [''faces'' \<mapsto> 1] []) (fe_host (result_faces 1), fe_port (result_faces 1))
     = Some 0
   \<and> tokens_for_filter (heap_pf (pf_session [''faces'' \<mapsto> 1] []) 0)
        (rw_filter_passed (fe_result_wrapper (result_faces 1))) = Some 1
   \<and> producer_pf_step (pf_session [''faces'' \<mapsto> 1] []) (result_faces 1) =
        (None,
         set_counter (pf_session [''faces'' \<mapsto> 1] []) 0
           (rw_filter_passed (fe_result_wrapper (result_faces 1))) (1 + 1),
         [Log DEBUG ''Sending to %s'',
          Send (cl_websocket (heap_pf (pf_session [''faces'' \<mapsto> 1] []) 0))
            (Result_wrapper (fe_result_wrapper (result_faces 1)))])
   \<and> tokens_for_filter
        (heap_pf (set_counter (pf_session [''faces'' \<mapsto> 1] []) 0
           (rw_filter_passed (fe_result_wrapper (result_faces 1))) (1 + 1)) 0)
        (rw_filter_passed (fe_result_wrapper (result_faces 1))) = Some (1 + 1)
   \<and> ''cars'' \<noteq> rw_filter_passed (fe_result_wrapper (result_faces 1))
   \<and> tokens_for_filter
        (heap_pf (set_counter (pf_session [''faces'' \<mapsto> 1] []) 0
           (rw_filter_passed (fe_result_wrapper (result_faces 1))) (1 + 1)) 0) ''cars''
      = tokens_for_filter (heap_pf (pf_session [''faces'' \<mapsto> 1] []) 0) ''cars''
   \<and> (1::nat) \<noteq> 0
   \<and> heap_pf (set_counter (pf_session [''faces'' \<mapsto> 1] []) 0
           (rw_filter_passed (fe_result_wrapper (result_faces 1))) (1 + 1)) 1
      = heap_pf (pf_session [''faces'' \<mapsto> 1] []) 1
   \<and> clients_pf (pf_session Map.empty []) (fe_host (result_faces 1), fe_port (result_faces 1))
     = Some 0
   \<and> tokens_for_filter (heap_pf (pf_session Map.empty []) 0)
        (rw_filter_passed (fe_result_wrapper (result_faces 1))) = None
   \<and> producer_pf_step (pf_session Map.empty []) (result_faces 1) =
        (Some KeyError, pf_session Map.empty [], [])
   \<and> producer_pf (pf_session Map.empty []) [result_faces 1, result_faces 2] =
        (Some KeyError, pf_session Map.empty [], [])"
proof -
  have h1: "clients_pf (pf_session [''faces'' \<mapsto> 1] [])
      (fe_host (result_faces 1), fe_port (result_faces 1)) = Some 0"
    by (simp add: pf_session_def result_faces_def)
  have h2: "tokens_for_filter (heap_pf (pf_session [''faces'' \<mapsto> 1] []) 0)
        (rw_filter_passed (fe_result_wrapper (result_faces 1))) = Some 1"
    by (simp add: pf_session_def result_faces_def)
  have h3: "''cars'' \<noteq> rw_filter_passed (fe_result_wrapper (result_faces 1))"
    by (simp add: result_faces_def)
  have h4: "(1::nat) \<noteq> 0" by simp
  have h5: "clients_pf (pf_session Map.empty [])
      (fe_host (result_faces 1), fe_port (result_faces 1)) = Some 0"
    by (simp add: pf_session_def result_faces_def)
  have h6: "tokens_for_filter (heap_pf (pf_session Map.empty []) 0)
        (rw_filter_passed (fe_result_wrapper (result_faces 1))) = None"
    by (simp add: pf_session_def)
  note t1 = producer_refund_needs_ledger_key [OF h1, where t = 1]
  note t2 = producer_refund_needs_ledger_key [OF h5, where t = 1 and rest = "[result_faces 2]"]
  from t1 t2 h1 h2 h3 h4 h5 h6 show ?thesis by blast
qed

end
